theory Spec2Isabelle
  imports Main "HOL-Library.AList"
begin

section \<open>Python values shared by the modules\<close>

text \<open>
  Exceptions are values. Every \<^verbatim>\<open>raise\<close> of the source, and every failing
  subscript, attribute access or file operation, is a branch returning \<open>Inl\<close>.
\<close>

datatype error =
    FileNotFoundError string
  | NotADirectoryError string
  | IsADirectoryError string
  | PermissionError string
  | ParseError
  | KeyError string
  | AttributeError string
  | TypeError
  | UnboundLocalError string
  | IndexError
  | Exception string

text \<open>
  Strings are lists of characters. \<open>isspace\<close> is Python's \<^verbatim>\<open>str.isspace\<close> on the
  code points below 256: the characters that \<^verbatim>\<open>strip\<close> and \<^verbatim>\<open>lstrip\<close> remove
  when called without an argument.
\<close>

definition isspace :: "char \<Rightarrow> bool" where
  "isspace c = (of_char c \<in> ({9..13} \<union> {28..32} \<union> {133, 160} :: nat set))"

definition lstrip :: "string \<Rightarrow> string" where
  "lstrip s = dropWhile isspace s"

definition rstrip :: "string \<Rightarrow> string" where
  "rstrip s = rev (dropWhile isspace (rev s))"

definition strip :: "string \<Rightarrow> string" where
  "strip s = rstrip (lstrip s)"

text \<open>\<^verbatim>\<open>s.split(sep)\<close> for a one-character separator: never the empty list.\<close>

fun split :: "char \<Rightarrow> string \<Rightarrow> string list" where
  "split sep [] = [[]]"
| "split sep (c # cs) =
     (if c = sep then [] # split sep cs
      else (case split sep cs of w # ws \<Rightarrow> (c # w) # ws | [] \<Rightarrow> [[c]]))"

text \<open>\<^verbatim>\<open>s.split(sep, 1)\<close>: at most one cut, at the first separator.\<close>

definition split1 :: "char \<Rightarrow> string \<Rightarrow> string list" where
  "split1 sep s =
     (if sep \<in> set s
      then [takeWhile (\<lambda>c. c \<noteq> sep) s, tl (dropWhile (\<lambda>c. c \<noteq> sep) s)]
      else [s])"

text \<open>\<^verbatim>\<open>sep.join(xs)\<close>.\<close>

fun join :: "string \<Rightarrow> string list \<Rightarrow> string" where
  "join sep [] = []"
| "join sep [x] = x"
| "join sep (x # y # ys) = x @ sep @ join sep (y # ys)"

text \<open>\<^verbatim>\<open>del xs[n]\<close> for an index in range.\<close>

definition del :: "nat \<Rightarrow> 'a list \<Rightarrow> 'a list" where
  "del n xs = take n xs @ drop (Suc n) xs"

subsection \<open>pathlib\<close>

text \<open>
  A \<^verbatim>\<open>pathlib.Path\<close> on a POSIX system: its root (empty for a relative path, \<^verbatim>\<open>/\<close>, or
  \<^verbatim>\<open>//\<close> when the string starts with exactly two slashes) and its components. The
  constructor \<open>Path\<close> drops empty components and \<^verbatim>\<open>.\<close> components and keeps \<^verbatim>\<open>..\<close>;
  two paths are equal when root and components are. \<open>path_str\<close> is \<^verbatim>\<open>str(p)\<close> and
  \<open>joinpath\<close> is \<^verbatim>\<open>p / s\<close> for a string \<open>s\<close>.
\<close>

datatype path = PosixPath (path_root: string) (path_parts: "string list")

definition Path :: "string \<Rightarrow> path" where
  "Path s =
     PosixPath
       (if take 2 s = ''//'' \<and> take 3 s \<noteq> ''///'' then ''//''
        else if take 1 s = ''/'' then ''/'' else [])
       (filter (\<lambda>c. c \<noteq> [] \<and> c \<noteq> ''.'') (split CHR ''/'' s))"

definition path_str :: "path \<Rightarrow> string" where
  "path_str p =
     (if path_root p = [] \<and> path_parts p = [] then ''.''
      else path_root p @ join ''/'' (path_parts p))"

definition joinpath :: "path \<Rightarrow> string \<Rightarrow> path" where
  "joinpath p s =
     (let q = Path s
      in if path_root q \<noteq> [] then q
         else PosixPath (path_root p) (path_parts p @ path_parts q))"

section \<open>gitignore.py\<close>

text \<open>
  The disk as \<^verbatim>\<open>Gitignore\<close> sees it: a tree of directories and regular files without
  symbolic links, every entry readable and writable. An entry is found under the list
  of names that leads to it from the root directory; \<open>cwd\<close> is the list of the working
  directory. A regular file holds the text that \<^verbatim>\<open>read_text\<close> returns.
\<close>

datatype fs_node = Directory | RegularFile string

record filesystem =
  cwd :: "string list"
  nodes :: "string list \<Rightarrow> fs_node option"

text \<open>
  Resolving a path walks its components from the working directory, or from the root
  for an absolute path. Every location that is stepped from must be a directory:
  stepping from a missing entry is the error \<^verbatim>\<open>ENOENT\<close>, stepping from a regular file
  is \<^verbatim>\<open>ENOTDIR\<close>. \<^verbatim>\<open>..\<close> steps to the parent. \<open>walk\<close> returns the location the path
  leads to, which may be vacant; \<open>stat\<close> also wants an entry there.
\<close>

datatype errno = ENOENT | ENOTDIR

fun walk :: "(string list \<Rightarrow> fs_node option) \<Rightarrow> string list \<Rightarrow> string list
               \<Rightarrow> errno + string list" where
  "walk nd cur [] = Inr cur"
| "walk nd cur (c # cs) =
     (case nd cur of
        None \<Rightarrow> Inl ENOENT
      | Some (RegularFile t) \<Rightarrow> Inl ENOTDIR
      | Some Directory \<Rightarrow> walk nd (if c = ''..'' then butlast cur else cur @ [c]) cs)"

definition locate :: "filesystem \<Rightarrow> path \<Rightarrow> errno + string list" where
  "locate fs p = walk (nodes fs) (if path_root p = [] then cwd fs else []) (path_parts p)"

definition stat :: "filesystem \<Rightarrow> path \<Rightarrow> errno + fs_node" where
  "stat fs p =
     (case locate fs p of
        Inl e \<Rightarrow> Inl e
      | Inr loc \<Rightarrow> (case nodes fs loc of None \<Rightarrow> Inl ENOENT | Some n \<Rightarrow> Inr n))"

text \<open>
  \<^verbatim>\<open>Path.is_dir\<close> and \<^verbatim>\<open>Path.exists\<close> answer \<^verbatim>\<open>False\<close> on both errors.
  \<^verbatim>\<open>read_text\<close> raises on them and on a directory. \<^verbatim>\<open>write_text\<close> replaces the text of
  a regular file and creates a file at a vacant location whose parent is a directory;
  it raises when a parent is missing or is a regular file, and on a directory.
\<close>

definition is_dir :: "filesystem \<Rightarrow> path \<Rightarrow> bool" where
  "is_dir fs p = (stat fs p = Inr Directory)"

definition exists_path :: "filesystem \<Rightarrow> path \<Rightarrow> bool" where
  "exists_path fs p = (case stat fs p of Inl e \<Rightarrow> False | Inr n \<Rightarrow> True)"

definition oserror :: "errno \<Rightarrow> path \<Rightarrow> error" where
  "oserror e p =
     (case e of
        ENOENT \<Rightarrow> FileNotFoundError (path_str p)
      | ENOTDIR \<Rightarrow> NotADirectoryError (path_str p))"

definition read_text :: "filesystem \<Rightarrow> path \<Rightarrow> error + string" where
  "read_text fs p =
     (case stat fs p of
        Inl e \<Rightarrow> Inl (oserror e p)
      | Inr Directory \<Rightarrow> Inl (IsADirectoryError (path_str p))
      | Inr (RegularFile text) \<Rightarrow> Inr text)"

definition write_text :: "filesystem \<Rightarrow> path \<Rightarrow> string \<Rightarrow> error + filesystem" where
  "write_text fs p text =
     (case locate fs p of
        Inl e \<Rightarrow> Inl (oserror e p)
      | Inr loc \<Rightarrow>
          (case nodes fs loc of
             Some Directory \<Rightarrow> Inl (IsADirectoryError (path_str p))
           | _ \<Rightarrow> Inr (fs\<lparr>nodes := (nodes fs)(loc \<mapsto> RegularFile text)\<rparr>)))"

text \<open>
  The object's fields. A compiled rule is whatever \<^verbatim>\<open>globToRegex\<close> of the \<^verbatim>\<open>paths\<close>
  package returns; that package is not part of this repository, so the function is a
  parameter \<open>globToRegex\<close> and a compiled rule has an arbitrary type \<open>'r\<close>.
\<close>

record 'r Gitignore =
  currentFile :: "path option"
  rules :: "'r list"
  dataLines :: "string list"
  hasChanged :: bool

definition Gitignore_init :: "'r Gitignore" where
  "Gitignore_init =
     \<lparr>currentFile = None, rules = [], dataLines = [], hasChanged = False\<rparr>"

definition addRule :: "(string \<Rightarrow> 'r) \<Rightarrow> 'r Gitignore \<Rightarrow> string \<Rightarrow> 'r Gitignore" where
  "addRule globToRegex g rule =
     (if rule \<in> set (dataLines g) then g
      else g\<lparr>rules := rules g @ [globToRegex rule],
             dataLines := dataLines g @ [rule],
             hasChanged := True\<rparr>)"

text \<open>The index of the first stored line equal to the rule, as the \<^verbatim>\<open>enumerate\<close> loop finds it.\<close>

fun first_index :: "nat \<Rightarrow> string list \<Rightarrow> string \<Rightarrow> nat option" where
  "first_index n [] rule = None"
| "first_index n (line # rest) rule =
     (if line = rule then Some n else first_index (Suc n) rest rule)"

definition removeRule :: "'r Gitignore \<Rightarrow> string \<Rightarrow> error + 'r Gitignore" where
  "removeRule g rule =
     (case first_index 0 (dataLines g) rule of
        None \<Rightarrow> Inr g
      | Some n \<Rightarrow>
          if n < length (rules g)
          then Inr (g\<lparr>rules := del n (rules g),
                      dataLines := del n (dataLines g),
                      hasChanged := True\<rparr>)
          else Inl IndexError)"

text \<open>The body of the loop of \<^verbatim>\<open>load\<close> over the lines of the file.\<close>

definition load_line :: "(string \<Rightarrow> 'r) \<Rightarrow> string \<Rightarrow> 'r Gitignore \<Rightarrow> 'r Gitignore" where
  "load_line globToRegex line g =
     (let l = lstrip line
      in if l \<noteq> [] \<and> hd l \<noteq> CHR ''#'' then addRule globToRegex g l else g)"

text \<open>
  \<^verbatim>\<open>load\<close> and \<^verbatim>\<open>save\<close>. The argument \<open>fileOrDir\<close> is \<^verbatim>\<open>None\<close> or a path; both
  functions turn a string into a path with \<open>Path\<close> first, so a caller holding a string
  \<open>s\<close> passes \<open>Some (Path s)\<close>. \<^verbatim>\<open>save\<close> compares the current file and the target as
  paths.
\<close>

definition default_file :: "'r Gitignore \<Rightarrow> path option \<Rightarrow> path" where
  "default_file g fileOrDir =
     (case fileOrDir of
        Some p \<Rightarrow> p
      | None \<Rightarrow> (case currentFile g of Some p \<Rightarrow> p | None \<Rightarrow> Path ''.gitignore''))"

definition load ::
  "(string \<Rightarrow> 'r) \<Rightarrow> filesystem \<Rightarrow> 'r Gitignore \<Rightarrow> path option \<Rightarrow> bool \<Rightarrow> bool
     \<Rightarrow> error + 'r Gitignore" where
  "load globToRegex fs g fileOrDir addToExisting errorOnFileNotFound =
     (let p0 = default_file g fileOrDir;
          g1 = (if \<not> addToExisting then g\<lparr>rules := [], dataLines := []\<rparr> else g);
          startedEmpty = (rules g1 = []);
          p = (if is_dir fs p0 then joinpath p0 ''.gitignore'' else p0);
          g2 = g1\<lparr>currentFile := Some p\<rparr>
      in if \<not> exists_path fs p
         then (if errorOnFileNotFound then Inl (FileNotFoundError (path_str p)) else Inr g2)
         else (case read_text fs p of
                 Inl e \<Rightarrow> Inl e
               | Inr text \<Rightarrow>
                   Inr ((fold (load_line globToRegex) (split CHR 0x0A text) g2)
                          \<lparr>hasChanged := \<not> startedEmpty\<rparr>)))"

definition save ::
  "filesystem \<Rightarrow> 'r Gitignore \<Rightarrow> path option \<Rightarrow> error + (filesystem \<times> 'r Gitignore)" where
  "save fs g fileOrDir =
     (let p0 = default_file g fileOrDir;
          p = (if is_dir fs p0 then joinpath p0 ''.gitignore'' else p0)
      in if hasChanged g \<or> currentFile g \<noteq> Some p
         then (case write_text fs p (join [CHR 0x0A] (dataLines g)) of
                 Inl e \<Rightarrow> Inl e
               | Inr fs' \<Rightarrow> Inr (fs', g\<lparr>currentFile := Some p, hasChanged := False\<rparr>))
         else Inr (fs, g))"

subsection \<open>Removing a rule that is not stored\<close>

lemma first_index_None: "rule \<notin> set ls \<Longrightarrow> first_index n ls rule = None"
  by (induction ls arbitrary: n) auto

text \<open>
  Claim C10. For every state of a \<^verbatim>\<open>Gitignore\<close> and every rule string that is not
  among its stored lines, \<^verbatim>\<open>removeRule\<close> returns normally and the whole object is
  the one it started from: stored lines, compiled rules and \<^verbatim>\<open>hasChanged\<close> alike.
\<close>

theorem removeRule_absent:
  "rule \<notin> set (dataLines g) \<Longrightarrow> removeRule g rule = Inr g"
  by (simp add: removeRule_def first_index_None)

theorem removeRule_absent_witness:
  "''*.o'' \<notin> set (dataLines (addRule id Gitignore_init ''doxygen/*''))
   \<and> removeRule (addRule id Gitignore_init ''doxygen/*'') ''*.o''
       = Inr (addRule id Gitignore_init ''doxygen/*'')"
proof -
  have h: "''*.o'' \<notin> set (dataLines (addRule id Gitignore_init ''doxygen/*''))"
    by (simp add: addRule_def Gitignore_init_def)
  show ?thesis using h removeRule_absent [OF h] by simp
qed

subsection \<open>Comment lines of a gitignore file\<close>

text \<open>
  The lines that a load keeps: the left-stripped lines of the text that are neither
  empty nor comments, in the order of the file, each once, at its first occurrence
  (\<open>remdups\<close> keeps the last occurrence of an element, hence the two reversals).
\<close>

definition is_rule_line :: "string \<Rightarrow> bool" where
  "is_rule_line l = (l \<noteq> [] \<and> hd l \<noteq> CHR ''#'')"

definition rule_lines :: "string \<Rightarrow> string list" where
  "rule_lines text =
     rev (remdups (rev (filter is_rule_line (map lstrip (split CHR 0x0A text)))))"

lemma load_line_dataLines:
  "dataLines (load_line f line g) =
     (if is_rule_line (lstrip line) \<and> lstrip line \<notin> set (dataLines g)
      then dataLines g @ [lstrip line] else dataLines g)"
  by (simp add: load_line_def addRule_def Let_def is_rule_line_def)

lemma load_line_rules:
  "rules g = map f (dataLines g) \<Longrightarrow>
   rules (load_line f line g) = map f (dataLines (load_line f line g))"
  by (simp add: load_line_def addRule_def Let_def)

lemma fold_load_line_dataLines:
  "dataLines g = [] \<Longrightarrow>
   dataLines (fold (load_line f) ls g) =
     rev (remdups (rev (filter is_rule_line (map lstrip ls))))"
proof (induction ls rule: rev_induct)
  case Nil
  then show ?case by simp
next
  case (snoc l ls)
  then show ?case by (simp add: load_line_dataLines)
qed

lemma fold_load_line_rules:
  "rules g = map f (dataLines g) \<Longrightarrow>
   rules (fold (load_line f) ls g) = map f (dataLines (fold (load_line f) ls g))"
  by (induction ls arbitrary: g) (simp_all add: load_line_rules)

lemma split_no_sep: "l \<in> set (split c s) \<Longrightarrow> c \<notin> set l"
proof (induction s arbitrary: l)
  case Nil
  then show ?case by simp
next
  case (Cons x xs)
  show ?case
  proof (cases "x = c")
    case True
    then show ?thesis using Cons by auto
  next
    case False
    show ?thesis
    proof (cases "split c xs")
      case Nil
      then show ?thesis using Cons.prems False by simp
    next
      case (Cons w ws)
      then have "c \<notin> set w" and "\<forall>v \<in> set ws. c \<notin> set v"
        using Cons.IH by simp_all
      then show ?thesis using Cons.prems False Cons by auto
    qed
  qed
qed

lemma split_append_sep: "c \<notin> set x \<Longrightarrow> split c (x @ c # rest) = x # split c rest"
  by (induction x) auto

lemma split_single: "c \<notin> set x \<Longrightarrow> split c x = [x]"
  by (induction x) auto

lemma split_join:
  "xs \<noteq> [] \<Longrightarrow> \<forall>x \<in> set xs. c \<notin> set x \<Longrightarrow> split c (join [c] xs) = xs"
proof (induction xs rule: induct_list012)
  case 1
  then show ?case by simp
next
  case (2 x)
  then show ?case by (simp add: split_single)
next
  case (3 x y zs)
  then show ?case by (simp add: split_append_sep)
qed

lemma rule_lines_no_newline: "l \<in> set (rule_lines body) \<Longrightarrow> CHR 0x0A \<notin> set l"
proof -
  assume "l \<in> set (rule_lines body)"
  then obtain l0 where l0: "l0 \<in> set (split CHR 0x0A body)" and l: "l = lstrip l0"
    by (auto simp: rule_lines_def)
  have "set l \<subseteq> set l0" unfolding l lstrip_def by (auto dest: set_dropWhileD)
  then show ?thesis using split_no_sep [OF l0] by auto
qed

lemma rule_lines_no_comment: "l \<in> set (rule_lines text) \<Longrightarrow> l \<noteq> [] \<and> hd l \<noteq> CHR ''#''"
  by (auto simp: rule_lines_def is_rule_line_def)

lemma save_writes_dataLines:
  assumes "save fs g q = Inr (fs', g')"
  shows "fs' = fs \<or> (\<exists>p. write_text fs p (join [CHR 0x0A] (dataLines g)) = Inr fs')"
  using assms
  by (auto simp: save_def Let_def split: if_splits sum.splits)

text \<open>
  A disk with the working directory \<^verbatim>\<open>/w\<close>, in it the directory \<^verbatim>\<open>a\<close>, which holds a
  gitignore file with one comment line and one rule, and the empty directory \<^verbatim>\<open>b\<close>.
\<close>

definition commented_text :: string where
  "commented_text = ''# build'' @ [CHR 0x0A] @ ''*.o''"

definition commented_fs :: filesystem where
  "commented_fs =
     \<lparr>cwd = [''w''],
      nodes = [[] \<mapsto> Directory, [''w''] \<mapsto> Directory,
               [''w'', ''a''] \<mapsto> Directory, [''w'', ''b''] \<mapsto> Directory,
               [''w'', ''a'', ''.gitignore''] \<mapsto> RegularFile commented_text]\<rparr>"

definition commented_loaded :: "string Gitignore" where
  "commented_loaded =
     \<lparr>currentFile = Some (Path ''a/.gitignore''), rules = [''*.o''], dataLines = [''*.o''],
      hasChanged = False\<rparr>"

lemmas fs_defs = is_dir_def exists_path_def stat_def locate_def read_text_def write_text_def
  oserror_def Path_def path_str_def joinpath_def default_file_def

lemma commented_load:
  "load id commented_fs Gitignore_init (Some (Path ''a/.gitignore'')) False True
     = Inr commented_loaded"
  by (simp add: load_def Let_def fs_defs commented_fs_def commented_text_def
        commented_loaded_def Gitignore_init_def load_line_def addRule_def lstrip_def
        isspace_def)

lemma commented_load_dir:
  "load id commented_fs Gitignore_init (Some (Path ''a'')) False True = Inr commented_loaded"
  by (simp add: load_def Let_def fs_defs commented_fs_def commented_text_def
        commented_loaded_def Gitignore_init_def load_line_def addRule_def lstrip_def
        isspace_def)

lemma commented_save:
  "save commented_fs commented_loaded (Some (Path ''b/.gitignore''))
     = Inr (commented_fs\<lparr>nodes := (nodes commented_fs)
                ([''w'', ''b'', ''.gitignore''] \<mapsto> RegularFile ''*.o'')\<rparr>,
            commented_loaded\<lparr>currentFile := Some (Path ''b/.gitignore'')\<rparr>)"
  by (simp add: save_def Let_def fs_defs commented_fs_def commented_loaded_def)

lemma commented_save_same:
  "save commented_fs commented_loaded (Some (Path ''./a//.gitignore''))
     = Inr (commented_fs, commented_loaded)"
  by (simp add: save_def Let_def fs_defs commented_fs_def commented_loaded_def)

lemma commented_save_no_parent:
  "save commented_fs commented_loaded (Some (Path ''c/.gitignore''))
     = Inl (FileNotFoundError ''c/.gitignore'')"
  by (simp add: save_def Let_def fs_defs commented_fs_def commented_loaded_def)

text \<open>
  Claim C9, as stated, fails. The file \<^verbatim>\<open>a/.gitignore\<close> holds the comment line
  \<^verbatim>\<open># build\<close> and the rule \<^verbatim>\<open>*.o\<close>. Loading it stores the rule only, and saving
  the loaded object to \<^verbatim>\<open>b/.gitignore\<close>, in the existing directory \<^verbatim>\<open>b\<close>, writes a
  file whose only line is the rule: the comment line is not written back.
\<close>

theorem load_save_loses_comment:
  "load id commented_fs Gitignore_init (Some (Path ''a/.gitignore'')) False True
     = Inr commented_loaded
   \<and> save commented_fs commented_loaded (Some (Path ''b/.gitignore''))
     = Inr (commented_fs\<lparr>nodes := (nodes commented_fs)
                ([''w'', ''b'', ''.gitignore''] \<mapsto> RegularFile ''*.o'')\<rparr>,
            commented_loaded\<lparr>currentFile := Some (Path ''b/.gitignore'')\<rparr>)
   \<and> ''# build'' \<in> set (split CHR 0x0A commented_text)
   \<and> ''# build'' \<notin> set (split CHR 0x0A ''*.o'')"
  by (simp add: commented_load commented_save) (simp add: commented_text_def)

text \<open>
  Claim C9, amended. For every gitignore file, a line whose first non-blank character is
  \<^verbatim>\<open>#\<close> is not parsed as a rule and is not kept either. After every successful load
  that does not add to existing rules, whether it was given a file, a directory or
  nothing, the current file is set, and the stored lines are exactly the rule lines of
  its text: the left-stripped lines that are neither empty nor comments, in file order,
  each once; they are no lines at all when the file does not exist and the load was
  told not to raise. Every stored line has its compiled rule at the same index, and no
  stored line is a comment. A save of that object either leaves the disk alone or
  writes one file, with the stored lines joined by newlines as its text; the lines of
  that text are the stored lines again, so it holds no comment line.
\<close>

theorem load_keeps_rules_only:
  assumes "load globToRegex fs g fileOrDir False e = Inr g'"
      and "save fs2 g' q = Inr (fs3, g3)"
  shows "(\<exists>p. currentFile g' = Some p
            \<and> dataLines g' =
                (case read_text fs p of Inr text \<Rightarrow> rule_lines text | Inl err \<Rightarrow> []))
       \<and> rules g' = map globToRegex (dataLines g')
       \<and> (\<forall>l \<in> set (dataLines g'). l \<noteq> [] \<and> hd l \<noteq> CHR ''#'')
       \<and> (fs3 = fs2 \<or>
            (\<exists>p'. write_text fs2 p' (join [CHR 0x0A] (dataLines g')) = Inr fs3))
       \<and> (dataLines g' \<noteq> [] \<longrightarrow>
            split CHR 0x0A (join [CHR 0x0A] (dataLines g')) = dataLines g')"
proof -
  define p where "p = (if is_dir fs (default_file g fileOrDir)
                        then joinpath (default_file g fileOrDir) ''.gitignore''
                        else default_file g fileOrDir)"
  let ?g2 = "g\<lparr>rules := [], dataLines := [], currentFile := Some p\<rparr>"
  have ld: "load globToRegex fs g fileOrDir False e =
              (if \<not> exists_path fs p
               then (if e then Inl (FileNotFoundError (path_str p)) else Inr ?g2)
               else (case read_text fs p of
                       Inl err \<Rightarrow> Inl err
                     | Inr body \<Rightarrow>
                         Inr ((fold (load_line globToRegex) (split CHR 0x0A body) ?g2)
                                \<lparr>hasChanged := False\<rparr>)))"
    unfolding p_def by (simp add: load_def Let_def split: sum.splits)
  have lines: "currentFile g' = Some p
             \<and> dataLines g' =
                 (case read_text fs p of Inr body \<Rightarrow> rule_lines body | Inl err \<Rightarrow> [])
             \<and> rules g' = map globToRegex (dataLines g')"
  proof (cases "exists_path fs p")
    case False
    then have g': "g' = ?g2"
      using assms(1) unfolding ld by (simp split: if_splits)
    have "\<exists>err. read_text fs p = Inl err"
      using False by (auto simp: exists_path_def read_text_def split: sum.splits)
    then show ?thesis using g' by auto
  next
    case True
    show ?thesis
    proof (cases "read_text fs p")
      case (Inl err)
      then show ?thesis using assms(1) True unfolding ld by simp
    next
      case (Inr body)
      then have g': "g' = (fold (load_line globToRegex) (split CHR 0x0A body) ?g2)
                            \<lparr>hasChanged := False\<rparr>"
        using assms(1) True unfolding ld by simp
      have cur: "currentFile (fold (load_line globToRegex) ls G) = currentFile G" for ls G
        by (induction ls arbitrary: G) (simp_all add: load_line_def addRule_def Let_def)
      have r: "rules ?g2 = map globToRegex (dataLines ?g2)" by simp
      have "dataLines g' = rule_lines body"
        unfolding g' rule_lines_def by (simp add: fold_load_line_dataLines)
      moreover have "rules g' = map globToRegex (dataLines g')"
        unfolding g' using fold_load_line_rules [OF r] by simp
      moreover have "currentFile g' = Some p"
        unfolding g' by (simp add: cur)
      ultimately show ?thesis using Inr by simp
    qed
  qed
  have nc: "\<forall>l \<in> set (dataLines g'). l \<noteq> [] \<and> hd l \<noteq> CHR ''#''"
    using lines rule_lines_no_comment by (auto split: sum.splits)
  have "\<forall>l \<in> set (dataLines g'). CHR 0x0A \<notin> set l"
    using lines rule_lines_no_newline by (auto split: sum.splits)
  then have "dataLines g' \<noteq> [] \<longrightarrow>
             split CHR 0x0A (join [CHR 0x0A] (dataLines g')) = dataLines g'"
    using split_join by blast
  then show ?thesis
    using lines nc save_writes_dataLines [OF assms(2)] by blast
qed

theorem load_keeps_rules_only_witness:
  "load id commented_fs Gitignore_init (Some (Path ''a'')) False True = Inr commented_loaded
   \<and> save commented_fs commented_loaded (Some (Path ''b/.gitignore''))
     = Inr (commented_fs\<lparr>nodes := (nodes commented_fs)
                ([''w'', ''b'', ''.gitignore''] \<mapsto> RegularFile ''*.o'')\<rparr>,
            commented_loaded\<lparr>currentFile := Some (Path ''b/.gitignore'')\<rparr>)
   \<and> read_text commented_fs (Path ''a/.gitignore'') = Inr commented_text
   \<and> rule_lines commented_text = [''*.o'']
   \<and> dataLines commented_loaded = rule_lines commented_text
   \<and> rules commented_loaded = map id (dataLines commented_loaded)
   \<and> split CHR 0x0A (join [CHR 0x0A] (dataLines commented_loaded)) = [''*.o'']
   \<and> write_text commented_fs (Path ''b/.gitignore'') (join [CHR 0x0A] (dataLines commented_loaded))
       = Inr (commented_fs\<lparr>nodes := (nodes commented_fs)
                ([''w'', ''b'', ''.gitignore''] \<mapsto> RegularFile ''*.o'')\<rparr>)"
proof -
  have rd: "read_text commented_fs (Path ''a/.gitignore'') = Inr commented_text"
    by (simp add: fs_defs commented_fs_def)
  have rl: "rule_lines commented_text = [''*.o'']"
    by (simp add: rule_lines_def is_rule_line_def commented_text_def lstrip_def isspace_def)
  have wr: "write_text commented_fs (Path ''b/.gitignore'')
              (join [CHR 0x0A] (dataLines commented_loaded))
            = Inr (commented_fs\<lparr>nodes := (nodes commented_fs)
                ([''w'', ''b'', ''.gitignore''] \<mapsto> RegularFile ''*.o'')\<rparr>)"
    by (simp add: fs_defs commented_fs_def commented_loaded_def)
  have cur: "currentFile commented_loaded = Some (Path ''a/.gitignore'')"
    by (simp add: commented_loaded_def)
  have dl: "dataLines commented_loaded = [''*.o'']"
    by (simp add: commented_loaded_def)
  from load_keeps_rules_only [OF commented_load_dir commented_save]
  have "dataLines commented_loaded = rule_lines commented_text
      \<and> rules commented_loaded = map id (dataLines commented_loaded)"
    using cur rd by auto
  moreover from load_keeps_rules_only [OF commented_load_dir commented_save]
  have "split CHR 0x0A (join [CHR 0x0A] (dataLines commented_loaded)) = [''*.o'']"
    using dl by simp
  ultimately show ?thesis
    using commented_load_dir commented_save rd rl wr by simp
qed

section \<open>doxyFile.py\<close>

text \<open>
  The value handed to the setter of \<^verbatim>\<open>DoxyfileSetting.value\<close>: a bool, a str, or any
  other object, which is represented by the string that \<^verbatim>\<open>str()\<close> gives for it.
\<close>

datatype pyvalue = PyBool bool | PyStr string | PyObject string

definition as_text :: "pyvalue \<Rightarrow> string" where
  "as_text v =
     (case v of
        PyBool b \<Rightarrow> (if b then ''YES'' else ''NO'')
      | PyStr s \<Rightarrow> s
      | PyObject s \<Rightarrow> s)"

text \<open>
  A setting keeps its name, its documentation, its value (\<^verbatim>\<open>_value\<close>) and the
  zero-based index of its line. The back pointer to the file is left out: there is one
  file. \<^verbatim>\<open>DoxyFile\<close> keeps the fields that \<^verbatim>\<open>load\<close>, the setter, \<^verbatim>\<open>markDirty\<close> and
  \<^verbatim>\<open>save\<close> touch; \<open>dirty\<close> is \<^verbatim>\<open>_dirty\<close>, \<open>lines\<close> is \<^verbatim>\<open>_lines\<close>, and \<open>settings\<close>
  is \<^verbatim>\<open>_settings\<close>, which is \<^verbatim>\<open>None\<close> until \<^verbatim>\<open>load\<close> assigns a dictionary. The file
  name is only ever read through \<^verbatim>\<open>os.path.expandvars\<close>, which takes the string of a
  path, so \<open>filename\<close> is that string. The constructor stores \<^verbatim>\<open>Path(filename)\<close>.
\<close>

record DoxyfileSetting =
  setting_name :: string
  docs :: string
  setting_value :: string
  lineNo :: nat

record DoxyFile =
  autosave :: bool
  autoCreate :: bool
  filename :: string
  dirty :: bool
  lines :: "string list"
  settings :: "(string \<Rightarrow> DoxyfileSetting option) option"

definition DoxyFile_init :: "string \<Rightarrow> bool \<Rightarrow> bool \<Rightarrow> DoxyFile" where
  "DoxyFile_init fname ac asv =
     \<lparr>autosave = asv, autoCreate = ac, filename = path_str (Path fname), dirty = False,
      lines = [], settings = None\<rparr>"

text \<open>
  What lies outside the repository: \<^verbatim>\<open>os.path.expandvars\<close>, \<^verbatim>\<open>os.path.exists\<close>, and
  the run of \<^verbatim>\<open>doxygen -g\<close> on a file name by \<^verbatim>\<open>osrun.run\<close>, of which \<^verbatim>\<open>create\<close> only
  looks at the error output: \<open>doxygen_g\<close> is \<open>None\<close> when the run leaves it empty and
  the exception that \<^verbatim>\<open>create\<close> raises otherwise.
\<close>

record os =
  expandvars :: "string \<Rightarrow> string"
  os_path_exists :: "string \<Rightarrow> bool"
  doxygen_g :: "string \<Rightarrow> error option"

definition create :: "os \<Rightarrow> DoxyFile \<Rightarrow> error option" where
  "create os d = doxygen_g os (expandvars os (filename d))"

text \<open>
  \<^verbatim>\<open>save\<close> opens the file for writing and writes the joined lines. A write is
  recorded as the pair of the name opened and the data written, so the writes of a call
  can be counted; opening the file is taken to succeed.
\<close>

type_synonym file_write = "string \<times> string"

definition DoxyFile_save ::
  "os \<Rightarrow> DoxyFile \<Rightarrow> string option \<Rightarrow> DoxyFile \<times> file_write list" where
  "DoxyFile_save os d fileName =
     (let f = (case fileName of None \<Rightarrow> filename d | Some f \<Rightarrow> f);
          data = join [CHR 0x0A] (lines d)
      in (d\<lparr>dirty := False\<rparr>, [(expandvars os f, data)]))"

definition markDirty :: "os \<Rightarrow> DoxyFile \<Rightarrow> DoxyFile \<times> file_write list" where
  "markDirty os d =
     (if autosave d then DoxyFile_save os d (Some (filename d))
      else (d\<lparr>dirty := True\<rparr>, []))"

text \<open>
  The loop of \<^verbatim>\<open>load\<close> over the stripped lines (\<^verbatim>\<open>enumerate(self._lines)\<close>), with
  its two local lists \<^verbatim>\<open>lastsection\<close> and \<^verbatim>\<open>section\<close>.
\<close>

fun load_loop ::
  "nat \<Rightarrow> string list \<Rightarrow> string list \<Rightarrow> string list
     \<Rightarrow> (string \<Rightarrow> DoxyfileSetting option) \<Rightarrow> (string \<Rightarrow> DoxyfileSetting option)" where
  "load_loop n [] lastsection section m = m"
| "load_loop n (line # rest) lastsection section m =
     (if line = [] then
        (if section \<noteq> [] then load_loop (Suc n) rest section [] m
         else load_loop (Suc n) rest lastsection section m)
      else if hd line = CHR ''#'' then
        load_loop (Suc n) rest lastsection (section @ [drop 2 line]) m
      else
        (let cols = map strip (split1 CHR ''='' line)
         in if length cols > 1 then
              (let lastsection' = (if section \<noteq> [] then section else lastsection);
                   section' = (if section \<noteq> [] then [] else section);
                   setting = \<lparr>setting_name = cols ! 0,
                              docs = join [CHR 0x0A] lastsection',
                              setting_value = cols ! 1,
                              lineNo = n\<rparr>
               in load_loop (Suc n) rest lastsection' section'
                    (m(setting_name setting \<mapsto> setting)))
            else load_loop (Suc n) rest lastsection section m))"

text \<open>
  \<^verbatim>\<open>load\<close>. The local variable \<^verbatim>\<open>filename\<close> is rebound to the result of
  \<^verbatim>\<open>os.path.expandvars\<close>, which is a \<^verbatim>\<open>str\<close> for every string or path it is given, and
  the next statement but one calls \<^verbatim>\<open>filename.read_text\<close>: a \<^verbatim>\<open>str\<close> has no such
  attribute, so that call raises \<^verbatim>\<open>AttributeError\<close>, whatever the string (\<open>str_read_text\<close>).
  An exception leaves the object as the statements before it have made it, so \<^verbatim>\<open>load\<close>
  returns the exception, if any, together with the object.
\<close>

definition str_read_text :: "string \<Rightarrow> error + string" where
  "str_read_text s = Inl (AttributeError ''read_text'')"

definition DoxyFile_load :: "os \<Rightarrow> DoxyFile \<Rightarrow> string \<Rightarrow> error option \<times> DoxyFile" where
  "DoxyFile_load os d fname =
     (let d1 = d\<lparr>filename := fname, settings := Some Map.empty\<rparr>;
          f = expandvars os fname
      in case (if autoCreate d1 \<and> \<not> os_path_exists os f then create os d1 else None) of
           Some e \<Rightarrow> (Some e, d1)
         | None \<Rightarrow>
             (case str_read_text f of
                Inl e \<Rightarrow> (Some e, d1)
              | Inr data \<Rightarrow>
                  (let ls = map strip (split CHR 0x0A data)
                   in (None, d1\<lparr>lines := ls,
                                settings := Some (load_loop 0 ls [] [] Map.empty)\<rparr>))))"

text \<open>
  The property \<^verbatim>\<open>settings\<close> loads the file when \<^verbatim>\<open>_settings\<close> is \<^verbatim>\<open>None\<close> and returns
  \<^verbatim>\<open>_settings\<close>.
\<close>

definition get_settings ::
  "os \<Rightarrow> DoxyFile \<Rightarrow> (error + (string \<Rightarrow> DoxyfileSetting option) option) \<times> DoxyFile" where
  "get_settings os d =
     (case settings d of
        None \<Rightarrow>
          (case DoxyFile_load os d (filename d) of
             (Some e, d1) \<Rightarrow> (Inl e, d1)
           | (None, d1) \<Rightarrow> (Inr (settings d1), d1))
      | Some m \<Rightarrow> (Inr (Some m), d))"

text \<open>
  The setter of \<^verbatim>\<open>value\<close>, on the setting \<open>s\<close> that the dictionary \<open>m\<close> holds
  under the key \<open>k\<close>. The new text is stored in the setting first; the line
  of the file is rewritten and \<^verbatim>\<open>markDirty\<close> is called only when the text after the
  first \<^verbatim>\<open>=\<close> of that line, left-stripped, differs from the new text. The result is
  the exception, if any, the object, and the writes.
\<close>

definition set_value ::
  "os \<Rightarrow> DoxyFile \<Rightarrow> (string \<Rightarrow> DoxyfileSetting option) \<Rightarrow> string \<Rightarrow> DoxyfileSetting
     \<Rightarrow> pyvalue \<Rightarrow> error option \<times> DoxyFile \<times> file_write list" where
  "set_value os d m k s v =
     (let val = as_text v;
          d1 = d\<lparr>settings := Some (m(k \<mapsto> s\<lparr>setting_value := val\<rparr>))\<rparr>
      in if length (lines d1) \<le> lineNo s then (Some IndexError, d1, [])
         else (let prev = split1 CHR ''='' (lines d1 ! lineNo s)
               in if length prev < 2 then (Some IndexError, d1, [])
                  else if lstrip (prev ! 1) \<noteq> val
                  then (case markDirty os
                               (d1\<lparr>lines := (lines d1)[lineNo s := (prev ! 0) @ ''= '' @ val]\<rparr>)
                        of (d2, ws) \<Rightarrow> (None, d2, ws))
                  else (None, d1, [])))"

text \<open>\<^verbatim>\<open>__setitem__\<close>: \<^verbatim>\<open>self.settings[k].value=v\<close>.\<close>

definition setitem ::
  "os \<Rightarrow> DoxyFile \<Rightarrow> string \<Rightarrow> pyvalue \<Rightarrow> error option \<times> DoxyFile \<times> file_write list" where
  "setitem os d k v =
     (case get_settings os d of
        (Inl e, d1) \<Rightarrow> (Some e, d1, [])
      | (Inr None, d1) \<Rightarrow> (Some TypeError, d1, [])
      | (Inr (Some m), d1) \<Rightarrow>
          (case m k of
             None \<Rightarrow> (Some (KeyError k), d1, [])
           | Some s \<Rightarrow> set_value os d1 m k s v))"

subsection \<open>Setting a key of a Doxyfile\<close>

text \<open>
  Claim C8 fails on the code by a slip in \<^verbatim>\<open>load\<close>, which contradicts its docstring
  (``load a doxyfile; will load on first use'') and the usage shown in the module's
  docstring (\<^verbatim>\<open>d=Doxyfile(...)\<close>, \<^verbatim>\<open>d['HAVE_DOT']=True\<close>). For every \<^verbatim>\<open>DoxyFile\<close> as
  its constructor builds it, whatever the file name, the flags, the disk and the key,
  the first \<^verbatim>\<open>d[k]=v\<close> raises inside \<^verbatim>\<open>load\<close> before the setter runs: the exception
  of \<^verbatim>\<open>create\<close> if the file had to be created and that failed, and otherwise the
  \<^verbatim>\<open>AttributeError\<close> of \<^verbatim>\<open>read_text\<close> on a \<^verbatim>\<open>str\<close>. Nothing is written and the dirty
  flag stays cleared. The failed load leaves an empty dictionary of settings, so
  every later \<^verbatim>\<open>d[k]=v\<close> raises \<^verbatim>\<open>KeyError\<close>, again without a write: the file is never
  loaded and no key ever exists.
\<close>

theorem setitem_raises_in_load:
  "setitem os (DoxyFile_init fname ac asv) k v =
     (Some (case (if ac \<and> \<not> os_path_exists os (expandvars os (path_str (Path fname)))
                  then doxygen_g os (expandvars os (path_str (Path fname))) else None) of
              Some e \<Rightarrow> e
            | None \<Rightarrow> AttributeError ''read_text''),
      (DoxyFile_init fname ac asv)\<lparr>settings := Some Map.empty\<rparr>, [])
   \<and> setitem os ((DoxyFile_init fname ac asv)\<lparr>settings := Some Map.empty\<rparr>) k v =
       (Some (KeyError k), (DoxyFile_init fname ac asv)\<lparr>settings := Some Map.empty\<rparr>, [])
   \<and> dirty ((DoxyFile_init fname ac asv)\<lparr>settings := Some Map.empty\<rparr>) = False"
  by (simp add: setitem_def get_settings_def DoxyFile_load_def str_read_text_def create_def
        DoxyFile_init_def Let_def split: option.splits)

section \<open>The registry built from Doxygen's XML output\<close>

section \<open>Doxygen's XML documents\<close>

text \<open>
  An element of \<^verbatim>\<open>xml.etree.ElementTree\<close>: its tag, its attributes in document order, its
  text (\<^verbatim>\<open>None\<close> when the element is empty) and its child elements. \<open>findall\<close> and
  \<open>find_child\<close> are \<^verbatim>\<open>findall(tag)\<close> and \<^verbatim>\<open>find(tag)\<close> on the direct children;
  \<open>findall_desc\<close> is the path \<^verbatim>\<open>.//tag\<close> and \<open>findall_id\<close> the path
  \<^verbatim>\<open>.//*[@id='r']\<close>, both over all proper descendants in document order.
\<close>

datatype element =
  Element (tag: string) (attrib: "(string \<times> string) list") (etext: "string option")
    (children: "element list")

definition attrib_get :: "element \<Rightarrow> string \<Rightarrow> string option" where
  "attrib_get e k = map_of (attrib e) k"

definition findall :: "string \<Rightarrow> element \<Rightarrow> element list" where
  "findall t e = filter (\<lambda>c. tag c = t) (children e)"

definition find_child :: "string \<Rightarrow> element \<Rightarrow> element option" where
  "find_child t e = (case findall t e of [] \<Rightarrow> None | c # _ \<Rightarrow> Some c)"

fun descendants :: "element \<Rightarrow> element list" where
  "descendants (Element t a x cs) = concat (map (\<lambda>c. c # descendants c) cs)"

definition findall_desc :: "string \<Rightarrow> element \<Rightarrow> element list" where
  "findall_desc t e = filter (\<lambda>c. tag c = t) (descendants e)"

definition findall_id :: "string \<Rightarrow> element \<Rightarrow> element list" where
  "findall_id r e = filter (\<lambda>c. attrib_get c ''id'' = Some r) (descendants e)"

text \<open>
  What the disk holds under Doxygen's output directory, as what reading and parsing the
  document at a path (\<^verbatim>\<open>ET.parse\<close>, or \<^verbatim>\<open>read_text\<close> followed by \<^verbatim>\<open>ET.fromstring\<close>) ends
  in. \<open>None\<close>: there is no file of that name, the name or one of its parent directories
  is missing, and opening it raises \<^verbatim>\<open>FileNotFoundError\<close>. \<open>Unreadable e\<close>: opening or
  reading raises another error \<open>e\<close> of the operating system, which is
  \<^verbatim>\<open>NotADirectoryError\<close> when a parent component of the path is a regular file,
  \<^verbatim>\<open>IsADirectoryError\<close> when the path is a directory, \<^verbatim>\<open>PermissionError\<close> when access is
  denied. \<open>Unparsable\<close>: the text is read and is not well-formed XML (\<^verbatim>\<open>ParseError\<close>).
  \<open>Document e\<close>: the text parses to the root element \<open>e\<close>. A path is the string it was
  built from. \<open>read_document\<close> is the read as the code sees it, an exception or an
  element.
\<close>

datatype document = Document element | Unparsable | Unreadable error

type_synonym xmlfiles = "string \<Rightarrow> document option"

definition read_document :: "xmlfiles \<Rightarrow> string \<Rightarrow> error + element" where
  "read_document fs p =
     (case fs p of
        None \<Rightarrow> Inl (FileNotFoundError p)
      | Some (Unreadable e) \<Rightarrow> Inl e
      | Some Unparsable \<Rightarrow> Inl ParseError
      | Some (Document e) \<Rightarrow> Inr e)"

section \<open>The registry and its objects\<close>

text \<open>
  Objects are shared and mutated in place: a function object is held by the registry's
  two dictionaries, by the files that mention it and by the call locations that point at
  it. The store therefore keeps the function objects and the file objects in two heaps
  (\<open>fns\<close> and \<open>fis\<close>, an object's address being its index, a new object going to the
  end) and every reference to an object is its address. The registry's own fields sit in
  the same record; \<open>reg_functions\<close>, \<open>reg_references\<close> and \<open>reg_files\<close> are the
  dictionaries \<^verbatim>\<open>_functions\<close>, \<^verbatim>\<open>_references\<close> and \<^verbatim>\<open>_files\<close>, kept as association
  lists in insertion order (\<open>AList.update\<close> replaces the value of a present key in place
  and appends an absent one, as a Python dictionary does). A name is \<^verbatim>\<open>element.text\<close>,
  hence an optional string. \<open>stdout\<close> collects what is printed.
\<close>

datatype CallLocation = CallLocation (cl_fn: nat) (location: string)

record DoxygenFileInfo =
  fi_name :: "string option"
  fi_functions :: "(string option \<times> nat) list"
  fi_xml :: "element option"
  xmlFilename :: string

record DoxygenFunctionInfo =
  fn_name :: "string option"
  refid :: string
  fn_files :: "(string option \<times> nat) list"
  parentReferences :: "CallLocation list"

record store =
  doxygenOutputDirectory :: string
  reg_functions :: "(string option \<times> nat) list"
  reg_references :: "(string \<times> nat) list"
  reg_files :: "(string option \<times> nat) list"
  functionBackreferencesCalculated :: bool
  fns :: "DoxygenFunctionInfo list"
  fis :: "DoxygenFileInfo list"
  stdout :: "string list"

definition in_xml_dir :: "store \<Rightarrow> string \<Rightarrow> string" where
  "in_xml_dir st f = doxygenOutputDirectory st @ ''/xml/'' @ f"

subsection \<open>doxygenFileInfo.py\<close>

text \<open>
  The property \<^verbatim>\<open>xml\<close> of a file object: the cached element if there is one; otherwise
  the document is read and parsed inside a \<^verbatim>\<open>try\<close> whose only handler is
  \<^verbatim>\<open>except FileNotFoundError\<close>, so every other exception of the read leaves the
  property. The result is the element, the object with its cache filled, and the lines
  printed. \<open>file_xml\<close> is the same on the object at an address of the store.
\<close>

definition file_not_found :: element where
  "file_not_found = Element ''file_not_found'' [] None []"

definition DoxygenFileInfo_xml ::
  "xmlfiles \<Rightarrow> DoxygenFileInfo \<Rightarrow> error + (element \<times> DoxygenFileInfo \<times> string list)" where
  "DoxygenFileInfo_xml fs f =
     (case fi_xml f of
        Some e \<Rightarrow> Inr (e, f, [])
      | None \<Rightarrow>
          (case read_document fs (xmlFilename f) of
             Inl (FileNotFoundError p) \<Rightarrow>
               Inr (file_not_found, f\<lparr>fi_xml := Some file_not_found\<rparr>,
                    [''ERR: '' @ [CHR 0x22] @ xmlFilename f @ [CHR 0x22] @ '' not found''])
           | Inl e \<Rightarrow> Inl e
           | Inr e \<Rightarrow> Inr (e, f\<lparr>fi_xml := Some e\<rparr>, [])))"

definition file_xml :: "xmlfiles \<Rightarrow> store \<Rightarrow> nat \<Rightarrow> error + (element \<times> store)" where
  "file_xml fs st x =
     (case DoxygenFileInfo_xml fs (fis st ! x) of
        Inl e \<Rightarrow> Inl e
      | Inr (doc, f, out) \<Rightarrow>
          Inr (doc, st\<lparr>fis := (fis st)[x := f], stdout := stdout st @ out\<rparr>))"

subsection \<open>doxygenInfo.py: the index\<close>

text \<open>
  \<^verbatim>\<open>_reparseXmlIndex\<close>: the body of the inner loop for one member, the inner loop over
  the members of one file compound, the body and the loop over the compounds, and the
  function itself. A subscript on a missing attribute
  raises \<^verbatim>\<open>KeyError\<close>; \<^verbatim>\<open>.text\<close> on a missing \<^verbatim>\<open>name\<close> child raises
  \<^verbatim>\<open>AttributeError\<close>. The file object is created but never entered in \<^verbatim>\<open>_files\<close>, as
  in the source.
\<close>

definition parse_member :: "nat \<Rightarrow> element \<Rightarrow> store \<Rightarrow> error + store" where
  "parse_member fa member st =
     (case attrib_get member ''refid'' of
        None \<Rightarrow> Inl (KeyError ''refid'')
      | Some r \<Rightarrow>
     (case attrib_get member ''kind'' of
        None \<Rightarrow> Inl (KeyError ''kind'')
      | Some kind \<Rightarrow>
          if kind = ''function'' then
            (case (case map_of (reg_references st) r of
                     Some a \<Rightarrow> Inr (a, st)
                   | None \<Rightarrow>
                       (case find_child ''name'' member of
                          None \<Rightarrow> Inl (AttributeError ''text'')
                        | Some nm \<Rightarrow>
                            Inr (length (fns st),
                                 st\<lparr>fns := fns st @
                                       [\<lparr>fn_name = etext nm, refid = r, fn_files = [],
                                         parentReferences = []\<rparr>],
                                    reg_functions :=
                                      AList.update (etext nm) (length (fns st)) (reg_functions st),
                                    reg_references :=
                                      AList.update r (length (fns st)) (reg_references st)\<rparr>)))
             of
               Inl e \<Rightarrow> Inl e
             | Inr (a, st1) \<Rightarrow>
                 Inr (st1\<lparr>fis := (fis st1)[fa := (fis st1 ! fa)
                            \<lparr>fi_functions :=
                               AList.update (fn_name (fns st1 ! a)) a
                                 (fi_functions (fis st1 ! fa))\<rparr>],
                         fns := (fns st1)[a := (fns st1 ! a)
                            \<lparr>fn_files :=
                               AList.update (fi_name (fis st1 ! fa)) fa
                                 (fn_files (fns st1 ! a))\<rparr>]\<rparr>))
          else Inr st))"

fun parse_members :: "nat \<Rightarrow> element list \<Rightarrow> store \<Rightarrow> error + store" where
  "parse_members fa [] st = Inr st"
| "parse_members fa (member # rest) st =
     (case parse_member fa member st of
        Inl e \<Rightarrow> Inl e
      | Inr st1 \<Rightarrow> parse_members fa rest st1)"

definition parse_compound :: "element \<Rightarrow> store \<Rightarrow> error + store" where
  "parse_compound file st =
     (if (case attrib_get file ''kind'' of None \<Rightarrow> [] | Some k \<Rightarrow> k) \<noteq> ''file''
      then Inr st
      else
        (case attrib_get file ''refid'' of
           None \<Rightarrow> Inl (KeyError ''refid'')
         | Some r \<Rightarrow>
        (case find_child ''name'' file of
           None \<Rightarrow> Inl (AttributeError ''text'')
         | Some nm \<Rightarrow>
             parse_members (length (fis st)) (findall ''member'' file)
               (st\<lparr>fis := fis st @
                      [\<lparr>fi_name = etext nm, fi_functions = [], fi_xml = None,
                        xmlFilename = in_xml_dir st (r @ ''.xml'')\<rparr>]\<rparr>))))"

fun parse_compounds :: "element list \<Rightarrow> store \<Rightarrow> error + store" where
  "parse_compounds [] st = Inr st"
| "parse_compounds (file # rest) st =
     (case parse_compound file st of
        Inl e \<Rightarrow> Inl e
      | Inr st1 \<Rightarrow> parse_compounds rest st1)"

definition reparseXmlIndex :: "xmlfiles \<Rightarrow> store \<Rightarrow> error + store" where
  "reparseXmlIndex fs st =
     (case read_document fs (in_xml_dir st ''index.xml'') of
        Inl e \<Rightarrow> Inl e
      | Inr root \<Rightarrow>
          parse_compounds (findall_desc ''compound'' root)
            (st\<lparr>reg_files := [], reg_functions := [], reg_references := []\<rparr>))"

text \<open>
  The properties \<^verbatim>\<open>functions\<close> and \<^verbatim>\<open>references\<close> parse the index again whenever their
  dictionary is empty; they return the store in which the dictionary is then read.
\<close>

definition get_functions :: "xmlfiles \<Rightarrow> store \<Rightarrow> error + store" where
  "get_functions fs st = (if reg_functions st = [] then reparseXmlIndex fs st else Inr st)"

definition get_references :: "xmlfiles \<Rightarrow> store \<Rightarrow> error + store" where
  "get_references fs st = (if reg_references st = [] then reparseXmlIndex fs st else Inr st)"

definition new_registry :: "string \<Rightarrow> store" where
  "new_registry outdir =
     \<lparr>doxygenOutputDirectory = outdir, reg_functions = [], reg_references = [], reg_files = [],
      functionBackreferencesCalculated = False, fns = [], fis = [], stdout = []\<rparr>"

subsection \<open>doxygenFunctionInfo.py\<close>

text \<open>
  \<^verbatim>\<open>bestFile\<close> reads \<^verbatim>\<open>bestFile.extension\<close>. The class \<^verbatim>\<open>DoxygenFileInfo\<close> sets the
  attributes \<^verbatim>\<open>root\<close>, \<^verbatim>\<open>name\<close>, \<^verbatim>\<open>functions\<close>, \<^verbatim>\<open>_xml\<close> and \<^verbatim>\<open>xmlFilename\<close>, has the
  property \<^verbatim>\<open>xml\<close>, no base class and no \<^verbatim>\<open>__getattr__\<close>: reading \<^verbatim>\<open>extension\<close> on one
  of its objects raises \<^verbatim>\<open>AttributeError\<close>, whatever the object.
\<close>

definition extension :: "DoxygenFileInfo \<Rightarrow> error + string" where
  "extension f = Inl (AttributeError ''extension'')"

fun bestFile_loop :: "store \<Rightarrow> nat option \<Rightarrow> nat list \<Rightarrow> error + nat option" where
  "bestFile_loop st best [] = Inr best"
| "bestFile_loop st best (f # rest) =
     (case best of
        None \<Rightarrow> bestFile_loop st (Some f) rest
      | Some b \<Rightarrow>
          (case extension (fis st ! b) of
             Inl e \<Rightarrow> Inl e
           | Inr x \<Rightarrow>
               if x = ''.h'' then bestFile_loop st (Some f) rest
               else bestFile_loop st best rest))"

definition rsplit1_head :: "char \<Rightarrow> string \<Rightarrow> string" where
  "rsplit1_head sep s =
     (if sep \<in> set s then rev (tl (dropWhile (\<lambda>c. c \<noteq> sep) (rev s))) else s)"

definition bestFile :: "store \<Rightarrow> nat \<Rightarrow> error + (nat option \<times> store)" where
  "bestFile st a =
     (if fn_files (fns st ! a) = [] then
        (let filename' = in_xml_dir st (rsplit1_head CHR ''_'' (refid (fns st ! a)) @ ''.xml'');
             fileInfo = \<lparr>fi_name = Some [], fi_functions = [(fn_name (fns st ! a), a)],
                         fi_xml = None, xmlFilename = filename'\<rparr>
         in Inr (Some (length (fis st)),
                 st\<lparr>fis := fis st @ [fileInfo],
                    fns := (fns st)[a := (fns st ! a)
                             \<lparr>fn_files := [(Some filename', length (fis st))]\<rparr>]\<rparr>))
      else
        (case bestFile_loop st None (map snd (fn_files (fns st ! a))) of
           Inl e \<Rightarrow> Inl e
         | Inr best \<Rightarrow> Inr (best, st)))"

text \<open>
  The property \<^verbatim>\<open>xml\<close> of a function object: the elements carrying its reference ID in
  the documents of all its files. When a document has none, a line naming
  \<^verbatim>\<open>self.bestFile.name\<close> is printed.
\<close>

definition py_str :: "string option \<Rightarrow> string" where
  "py_str x = (case x of None \<Rightarrow> ''None'' | Some s \<Rightarrow> s)"

definition file_name_of :: "store \<Rightarrow> nat option \<Rightarrow> error + string option" where
  "file_name_of st best =
     (case best of
        None \<Rightarrow> Inl (AttributeError ''name'')
      | Some b \<Rightarrow> Inr (fi_name (fis st ! b)))"

fun fn_xml_loop ::
  "xmlfiles \<Rightarrow> nat \<Rightarrow> nat list \<Rightarrow> element list \<Rightarrow> store \<Rightarrow> error + (element list \<times> store)" where
  "fn_xml_loop fs a [] acc st = Inr (acc, st)"
| "fn_xml_loop fs a (xmlFile # rest) acc st =
     (case file_xml fs st xmlFile of
        Inl e \<Rightarrow> Inl e
      | Inr (doc, st1) \<Rightarrow>
          if findall_id (refid (fns st1 ! a)) doc \<noteq> []
          then fn_xml_loop fs a rest (acc @ findall_id (refid (fns st1 ! a)) doc) st1
          else
            (case bestFile st1 a of
               Inl e \<Rightarrow> Inl e
             | Inr (best, st2) \<Rightarrow>
                 (case file_name_of st2 best of
                    Inl e \<Rightarrow> Inl e
                  | Inr nm \<Rightarrow>
                      fn_xml_loop fs a rest acc
                        (st2\<lparr>stdout := stdout st2 @
                           [''refid '' @ refid (fns st2 ! a) @ '' not found in '' @
                            [CHR 0x22] @ py_str nm @ [CHR 0x22]]\<rparr>))))"

definition fn_xml :: "xmlfiles \<Rightarrow> store \<Rightarrow> nat \<Rightarrow> error + (element list \<times> store)" where
  "fn_xml fs st a = fn_xml_loop fs a (map snd (fn_files (fns st ! a))) [] st"

text \<open>
  \<^verbatim>\<open>getDefinitionLocation\<close>. \<^verbatim>\<open>attrib.get(k, attrib[d])\<close> evaluates the default first, so
  it raises \<^verbatim>\<open>KeyError\<close> when \<open>d\<close> is missing even if \<open>k\<close> is present. The local
  variable \<^verbatim>\<open>filename\<close> is unbound until the first element has been seen.
  \<^verbatim>\<open>filename\<close>, the property, wraps the result in a \<^verbatim>\<open>Path\<close>; the callers format it
  into a string, so \<open>fn_filename\<close> returns the string of that path.
\<close>

definition attrib_get_default :: "element \<Rightarrow> string \<Rightarrow> string \<Rightarrow> string" where
  "attrib_get_default e k d = (case attrib_get e k of None \<Rightarrow> d | Some v \<Rightarrow> v)"

fun defloc_loop ::
  "bool \<Rightarrow> bool \<Rightarrow> element list \<Rightarrow> string option \<Rightarrow> error + string option" where
  "defloc_loop includeRow includeSpan [] filename' = Inr filename'"
| "defloc_loop includeRow includeSpan (element # rest) filename' =
     (case find_child ''location'' element of
        None \<Rightarrow> Inl (AttributeError ''attrib'')
      | Some loc \<Rightarrow>
     (case attrib_get loc ''file'' of
        None \<Rightarrow> Inl (KeyError ''file'')
      | Some file \<Rightarrow>
          if includeRow then
            (case attrib_get loc ''line'' of
               None \<Rightarrow> Inl (KeyError ''line'')
             | Some line \<Rightarrow>
                 (let fname = attrib_get_default loc ''bodyfile'' file;
                      row = attrib_get_default loc ''bodystart'' line;
                      endRow = attrib_get_default loc ''bodyend'' row
                  in if includeSpan \<and> row \<noteq> endRow
                     then defloc_loop includeRow includeSpan rest
                            (Some (fname @ '':'' @ row @ ''-'' @ endRow))
                     else defloc_loop includeRow includeSpan rest
                            (Some (fname @ '':'' @ row))))
          else defloc_loop includeRow includeSpan rest
                 (Some (attrib_get_default loc ''bodyfile'' file))))"

definition getDefinitionLocation ::
  "xmlfiles \<Rightarrow> store \<Rightarrow> nat \<Rightarrow> bool \<Rightarrow> bool \<Rightarrow> bool \<Rightarrow> error + (string \<times> store)" where
  "getDefinitionLocation fs st a includeRow includeColumn includeSpan =
     (case fn_xml fs st a of
        Inl e \<Rightarrow> Inl e
      | Inr (els, st1) \<Rightarrow>
          (case defloc_loop includeRow includeSpan els None of
             Inl e \<Rightarrow> Inl e
           | Inr None \<Rightarrow> Inl (UnboundLocalError ''filename'')
           | Inr (Some f) \<Rightarrow> Inr (f, st1)))"

definition fn_filename :: "xmlfiles \<Rightarrow> store \<Rightarrow> nat \<Rightarrow> error + (string \<times> store)" where
  "fn_filename fs st a =
     (case getDefinitionLocation fs st a False False False of
        Inl e \<Rightarrow> Inl e
      | Inr (f, st1) \<Rightarrow> Inr (path_str (Path f), st1))"

text \<open>
  \<^verbatim>\<open>thisCallsFunctions\<close> without an \<^verbatim>\<open>ignore\<close> argument. Membership in the set
  \<^verbatim>\<open>ignore\<close> goes through \<^verbatim>\<open>__hash__\<close> and \<^verbatim>\<open>__eq__\<close>, which compare reference IDs. A
  generator is modelled by the list of what it yields, in order, together with how it
  ends: an exception, or the store it leaves. The two nested loops run over the
  \<^verbatim>\<open>references\<close> children of all elements, in order.
\<close>

definition py_in :: "store \<Rightarrow> nat \<Rightarrow> nat list \<Rightarrow> bool" where
  "py_in st b ignore = (refid (fns st ! b) \<in> set (map (\<lambda>c. refid (fns st ! c)) ignore))"

fun calls_loop ::
  "xmlfiles \<Rightarrow> nat \<Rightarrow> element list \<Rightarrow> nat list \<Rightarrow> store
     \<Rightarrow> CallLocation list \<times> (error + store)" where
  "calls_loop fs a [] ignore st = ([], Inr st)"
| "calls_loop fs a (ref # rest) ignore st =
     (case get_references fs st of
        Inl e \<Rightarrow> ([], Inl e)
      | Inr st1 \<Rightarrow>
     (case attrib_get ref ''refid'' of
        None \<Rightarrow> ([], Inl (KeyError ''refid''))
      | Some r \<Rightarrow>
     (case map_of (reg_references st1) r of
        None \<Rightarrow> calls_loop fs a rest ignore st1
      | Some b \<Rightarrow>
          if py_in st1 b ignore then calls_loop fs a rest ignore st1
          else
            (case fn_filename fs st1 a of
               Inl e \<Rightarrow> ([], Inl e)
             | Inr (filename', st2) \<Rightarrow>
                 (case calls_loop fs a rest (ignore @ [b]) st2 of
                    (ys, r2) \<Rightarrow>
                      (CallLocation b
                         (case attrib_get ref ''startline'' of
                            None \<Rightarrow> filename'
                          | Some row \<Rightarrow>
                              if row = [] then filename' else filename' @ '':'' @ row)
                       # ys, r2))))))"

definition thisCallsFunctions ::
  "xmlfiles \<Rightarrow> store \<Rightarrow> nat \<Rightarrow> CallLocation list \<times> (error + store)" where
  "thisCallsFunctions fs st a =
     (case fn_xml fs st a of
        Inl e \<Rightarrow> ([], Inl e)
      | Inr (els, st1) \<Rightarrow>
          calls_loop fs a (concat (map (findall ''references'') els)) [a] st1)"

subsection \<open>doxygenInfo.py: back references\<close>

text \<open>
  \<^verbatim>\<open>calculateFunctionBackreferences\<close>. For one caller the back references are appended
  once its traversal has ended; the source appends between two yields, which gives the
  same store because the traversal never reads a parent list. An exception of the
  traversal ends the whole calculation.
\<close>

definition add_parent :: "nat \<Rightarrow> CallLocation \<Rightarrow> store \<Rightarrow> store" where
  "add_parent caller fnCall st =
     st\<lparr>fns := (fns st)[cl_fn fnCall := (fns st ! cl_fn fnCall)
            \<lparr>parentReferences := parentReferences (fns st ! cl_fn fnCall) @
               [CallLocation caller (location fnCall)]\<rparr>]\<rparr>"

fun backref_loop :: "xmlfiles \<Rightarrow> nat list \<Rightarrow> store \<Rightarrow> error + store" where
  "backref_loop fs [] st = Inr st"
| "backref_loop fs (a # rest) st =
     (case thisCallsFunctions fs st a of
        (ys, Inl e) \<Rightarrow> Inl e
      | (ys, Inr st1) \<Rightarrow> backref_loop fs rest (fold (add_parent a) ys st1))"

definition calculateFunctionBackreferences :: "xmlfiles \<Rightarrow> store \<Rightarrow> bool \<Rightarrow> error + store" where
  "calculateFunctionBackreferences fs st force =
     (if force \<or> \<not> functionBackreferencesCalculated st then
        (case get_functions fs st of
           Inl e \<Rightarrow> Inl e
         | Inr st1 \<Rightarrow>
             (case backref_loop fs (map snd (reg_functions st1)) st1 of
                Inl e \<Rightarrow> Inl e
              | Inr st2 \<Rightarrow> Inr (st2\<lparr>functionBackreferencesCalculated := True\<rparr>)))
      else Inr st)"

definition functionsCallThis ::
  "xmlfiles \<Rightarrow> store \<Rightarrow> nat \<Rightarrow> error + (CallLocation list \<times> store)" where
  "functionsCallThis fs st a =
     (case calculateFunctionBackreferences fs st False of
        Inl e \<Rightarrow> Inl e
      | Inr st1 \<Rightarrow> Inr (parentReferences (fns st1 ! a), st1))"

subsection \<open>callGraph.py\<close>

text \<open>
  A node holds the address of its function and the call location that led to it. The
  generators \<^verbatim>\<open>parents\<close> and \<^verbatim>\<open>children\<close> are the lists they yield. \<^verbatim>\<open>roots\<close> recurses
  without a bound, so it takes fuel: \<open>None\<close> means that the fuel ran out before the
  traversal ended.
\<close>

datatype CallGraphNode =
  CallGraphNode (node_fn: nat) (callLocation: "CallLocation option")

definition node_of :: "CallLocation \<Rightarrow> CallGraphNode" where
  "node_of call = CallGraphNode (cl_fn call) (Some call)"

definition parents ::
  "xmlfiles \<Rightarrow> store \<Rightarrow> CallGraphNode \<Rightarrow> error + (CallGraphNode list \<times> store)" where
  "parents fs st node =
     (case functionsCallThis fs st (node_fn node) of
        Inl e \<Rightarrow> Inl e
      | Inr (calls, st1) \<Rightarrow> Inr (map node_of calls, st1))"

definition children ::
  "xmlfiles \<Rightarrow> store \<Rightarrow> CallGraphNode \<Rightarrow> CallGraphNode list \<times> (error + store)" where
  "children fs st node =
     (case thisCallsFunctions fs st (node_fn node) of
        (calls, r) \<Rightarrow> (map node_of calls, r))"

definition isRoot :: "xmlfiles \<Rightarrow> store \<Rightarrow> CallGraphNode \<Rightarrow> error + (bool \<times> store)" where
  "isRoot fs st node =
     (case parents fs st node of
        Inl e \<Rightarrow> Inl e
      | Inr (ps, st1) \<Rightarrow> Inr (ps = [], st1))"

definition root ::
  "xmlfiles \<Rightarrow> store \<Rightarrow> CallGraphNode \<Rightarrow> error + (CallGraphNode \<times> store)" where
  "root fs st node =
     (case parents fs st node of
        Inl e \<Rightarrow> Inl e
      | Inr (ps, st1) \<Rightarrow> Inr ((case ps of [] \<Rightarrow> node | parent # _ \<Rightarrow> parent), st1))"

fun roots_each ::
  "(store \<Rightarrow> CallGraphNode \<Rightarrow> (error + (CallGraphNode list \<times> store)) option)
     \<Rightarrow> CallGraphNode list \<Rightarrow> store \<Rightarrow> (error + (CallGraphNode list \<times> store)) option" where
  "roots_each f [] st = Some (Inr ([], st))"
| "roots_each f (parent # rest) st =
     (case f st parent of
        None \<Rightarrow> None
      | Some (Inl e) \<Rightarrow> Some (Inl e)
      | Some (Inr (ys, st1)) \<Rightarrow>
          (case roots_each f rest st1 of
             None \<Rightarrow> None
           | Some (Inl e) \<Rightarrow> Some (Inl e)
           | Some (Inr (zs, st2)) \<Rightarrow> Some (Inr (ys @ zs, st2))))"

fun roots ::
  "nat \<Rightarrow> xmlfiles \<Rightarrow> store \<Rightarrow> CallGraphNode
     \<Rightarrow> (error + (CallGraphNode list \<times> store)) option" where
  "roots 0 fs st node = None"
| "roots (Suc n) fs st node =
     (case isRoot fs st node of
        Inl e \<Rightarrow> Some (Inl e)
      | Inr (b, st1) \<Rightarrow>
          if b then Some (Inr ([node], st1))
          else
            (case parents fs st1 node of
               Inl e \<Rightarrow> Some (Inl e)
             | Inr (ps, st2) \<Rightarrow> roots_each (roots n fs) ps st2))"

section \<open>Concrete registries\<close>

text \<open>Builders for the elements of Doxygen's index and of a per-file document.\<close>

definition name_el :: "string \<Rightarrow> element" where
  "name_el n = Element ''name'' [] (Some n) []"

definition member_el :: "string \<Rightarrow> string \<Rightarrow> element" where
  "member_el r n = Element ''member'' [(''refid'', r), (''kind'', ''function'')] None [name_el n]"

definition compound_el :: "string \<Rightarrow> string \<Rightarrow> element list \<Rightarrow> element" where
  "compound_el r n ms = Element ''compound'' [(''refid'', r), (''kind'', ''file'')] None (name_el n # ms)"

definition location_el :: "string \<Rightarrow> element" where
  "location_el f = Element ''location'' [(''file'', f)] None []"

definition references_el :: "string \<Rightarrow> string \<Rightarrow> element" where
  "references_el r row = Element ''references'' [(''refid'', r), (''startline'', row)] None []"

definition memberdef_el :: "string \<Rightarrow> string \<Rightarrow> element list \<Rightarrow> element" where
  "memberdef_el r f refs = Element ''memberdef'' [(''id'', r)] None (location_el f # refs)"

subsection \<open>A chain of three functions\<close>

definition chain_index :: element where
  "chain_index =
     Element ''doxygenindex'' [] None
       [compound_el ''c'' ''c.c'' [member_el ''t'' ''top'', member_el ''m'' ''mid'', member_el ''l'' ''leaf'']]"

definition chain_doc :: element where
  "chain_doc =
     Element ''doxygen'' [] None
       [memberdef_el ''t'' ''c.c'' [references_el ''m'' ''2''],
        memberdef_el ''m'' ''c.c'' [references_el ''l'' ''5''],
        memberdef_el ''l'' ''c.c'' []]"

definition chain_fs :: xmlfiles where
  "chain_fs = [''d/xml/index.xml'' \<mapsto> Document chain_index, ''d/xml/c.xml'' \<mapsto> Document chain_doc]"

definition chain_file :: DoxygenFileInfo where
  "chain_file =
     \<lparr>fi_name = Some ''c.c'',
      fi_functions = [(Some ''top'', 0), (Some ''mid'', 1), (Some ''leaf'', 2)],
      fi_xml = None, xmlFilename = ''d/xml/c.xml''\<rparr>"

definition chain_fn :: "string \<Rightarrow> string \<Rightarrow> CallLocation list \<Rightarrow> DoxygenFunctionInfo" where
  "chain_fn n r ps = \<lparr>fn_name = Some n, refid = r, fn_files = [(Some ''c.c'', 0)], parentReferences = ps\<rparr>"

definition chain_parsed :: store where
  "chain_parsed =
     \<lparr>doxygenOutputDirectory = ''d'',
      reg_functions = [(Some ''top'', 0), (Some ''mid'', 1), (Some ''leaf'', 2)],
      reg_references = [(''t'', 0), (''m'', 1), (''l'', 2)],
      reg_files = [], functionBackreferencesCalculated = False,
      fns = [chain_fn ''top'' ''t'' [], chain_fn ''mid'' ''m'' [], chain_fn ''leaf'' ''l'' []],
      fis = [chain_file], stdout = []\<rparr>"

definition chain_store :: store where
  "chain_store =
     chain_parsed
       \<lparr>functionBackreferencesCalculated := True,
        fns := [chain_fn ''top'' ''t'' [],
                chain_fn ''mid'' ''m'' [CallLocation 0 ''c.c:2''],
                chain_fn ''leaf'' ''l'' [CallLocation 1 ''c.c:5'']],
        fis := [chain_file\<lparr>fi_xml := Some chain_doc\<rparr>]\<rparr>"

lemmas el_defs = name_el_def member_el_def compound_el_def location_el_def references_el_def
  memberdef_el_def attrib_get_def findall_def find_child_def findall_desc_def findall_id_def
  attrib_get_default_def

lemma chain_parse: "reparseXmlIndex chain_fs (new_registry ''d'') = Inr chain_parsed"
  by (simp add: reparseXmlIndex_def read_document_def parse_compound_def parse_member_def new_registry_def
        in_xml_dir_def chain_fs_def chain_index_def
        chain_parsed_def chain_file_def chain_fn_def el_defs)

lemmas eval_defs = thisCallsFunctions_def fn_xml_def file_xml_def DoxygenFileInfo_xml_def
  read_document_def Path_def path_str_def get_references_def get_functions_def py_in_def fn_filename_def getDefinitionLocation_def
  add_parent_def

lemma chain_calc:
  "calculateFunctionBackreferences chain_fs chain_parsed False = Inr chain_store"
  by (simp add: calculateFunctionBackreferences_def eval_defs
        chain_fs_def chain_doc_def chain_parsed_def chain_store_def chain_file_def chain_fn_def
        el_defs)

lemma chain_store_calculated: "functionBackreferencesCalculated chain_store"
  by (simp add: chain_store_def)

lemma calculated_parents:
  "functionBackreferencesCalculated st \<Longrightarrow>
   parents fs st node = Inr (map node_of (parentReferences (fns st ! node_fn node)), st)"
  by (simp add: parents_def functionsCallThis_def calculateFunctionBackreferences_def)

text \<open>
  Claim C2 fails on the code, which contradicts its own docstring (``Main top-level
  entrypoint''). In the registry of the chain \<^verbatim>\<open>top\<close> calls \<^verbatim>\<open>mid\<close> calls \<^verbatim>\<open>leaf\<close>, with
  the back references calculated, \<^verbatim>\<open>root\<close> of the node of \<^verbatim>\<open>leaf\<close> is the node of
  \<^verbatim>\<open>mid\<close>: the loop over the parents stops after one step. That node is not a root,
  since \<^verbatim>\<open>mid\<close> is called by \<^verbatim>\<open>top\<close>.
\<close>

theorem root_of_leaf_is_mid:
  "reparseXmlIndex chain_fs (new_registry ''d'') = Inr chain_parsed
   \<and> calculateFunctionBackreferences chain_fs chain_parsed False = Inr chain_store
   \<and> root chain_fs chain_store (CallGraphNode 2 None)
     = Inr (CallGraphNode 1 (Some (CallLocation 1 ''c.c:5'')), chain_store)
   \<and> isRoot chain_fs chain_store (CallGraphNode 1 (Some (CallLocation 1 ''c.c:5'')))
     = Inr (False, chain_store)"
  by (simp add: chain_parse chain_calc root_def isRoot_def calculated_parents
        chain_store_calculated)
     (simp add: chain_store_def chain_parsed_def chain_fn_def node_of_def)

subsection \<open>A function declared in a header and defined in a source file\<close>

definition foo_index :: element where
  "foo_index =
     Element ''doxygenindex'' [] None
       [compound_el ''foo_8h'' ''foo.h'' [member_el ''f'' ''foo''],
        compound_el ''foo_8c'' ''foo.c'' [member_el ''f'' ''foo'']]"

definition foo_fs :: xmlfiles where
  "foo_fs = [''d/xml/index.xml'' \<mapsto> Document foo_index]"

definition foo_store :: store where
  "foo_store =
     \<lparr>doxygenOutputDirectory = ''d'',
      reg_functions = [(Some ''foo'', 0)],
      reg_references = [(''f'', 0)],
      reg_files = [], functionBackreferencesCalculated = False,
      fns = [\<lparr>fn_name = Some ''foo'', refid = ''f'',
              fn_files = [(Some ''foo.h'', 0), (Some ''foo.c'', 1)], parentReferences = []\<rparr>],
      fis = [\<lparr>fi_name = Some ''foo.h'', fi_functions = [(Some ''foo'', 0)], fi_xml = None,
              xmlFilename = ''d/xml/foo_8h.xml''\<rparr>,
             \<lparr>fi_name = Some ''foo.c'', fi_functions = [(Some ''foo'', 0)], fi_xml = None,
              xmlFilename = ''d/xml/foo_8c.xml''\<rparr>],
      stdout = []\<rparr>"

lemma bestFile_loop_second:
  "bestFile_loop st (Some b) (f # rest) = Inl (AttributeError ''extension'')"
  by (simp add: extension_def)

lemma bestFile_two_files:
  assumes "2 \<le> length (fn_files (fns st ! a))"
  shows "bestFile st a = Inl (AttributeError ''extension'')"
proof -
  obtain x y zs where "fn_files (fns st ! a) = x # y # zs"
    using assms by (cases "fn_files (fns st ! a)"; cases "tl (fn_files (fns st ! a))") auto
  then show ?thesis by (simp add: bestFile_def extension_def)
qed

text \<open>
  Claim C3 fails on the code by a slip. The index lists the function \<^verbatim>\<open>foo\<close> under
  \<^verbatim>\<open>foo.h\<close> and under \<^verbatim>\<open>foo.c\<close>; parsing it links both files to the one function
  object, and \<^verbatim>\<open>bestFile\<close> of that object raises \<^verbatim>\<open>AttributeError\<close> instead of
  selecting \<^verbatim>\<open>foo.c\<close>: on the second file of the loop it reads the attribute
  \<^verbatim>\<open>extension\<close>, which a file object does not have. The same happens for every function
  with two files or more (\<open>bestFile_two_files\<close>).
\<close>

theorem bestFile_header_and_source:
  "reparseXmlIndex foo_fs (new_registry ''d'') = Inr foo_store
   \<and> bestFile foo_store 0 = Inl (AttributeError ''extension'')"
  by (simp add: reparseXmlIndex_def read_document_def parse_compound_def parse_member_def
        new_registry_def in_xml_dir_def foo_fs_def foo_index_def
        foo_store_def el_defs bestFile_def extension_def)

subsection \<open>A per-file document that is missing or malformed\<close>

definition main_file :: DoxygenFileInfo where
  "main_file =
     \<lparr>fi_name = Some ''main.c'', fi_functions = [], fi_xml = None,
      xmlFilename = ''d/xml/main_8c.xml''\<rparr>"

text \<open>
  Claim C7, as stated, fails for an unparsable document. The per-file document of
  \<^verbatim>\<open>main.c\<close> is on the disk and is not well-formed XML: reading the property \<^verbatim>\<open>xml\<close>
  raises \<^verbatim>\<open>ParseError\<close>, which the \<^verbatim>\<open>except FileNotFoundError\<close> clause does not catch.
\<close>

theorem xml_unparsable_raises:
  "DoxygenFileInfo_xml [''d/xml/main_8c.xml'' \<mapsto> Unparsable] main_file = Inl ParseError"
  by (simp add: DoxygenFileInfo_xml_def read_document_def main_file_def)

text \<open>
  Claim C7, amended. Take any file object whose document is not yet cached. If reading
  the document raises \<^verbatim>\<open>FileNotFoundError\<close>, because no file of that name exists, then
  reading the property \<^verbatim>\<open>xml\<close> does not raise: the error is caught, one diagnostic
  line naming the path is printed, and an empty placeholder element \<^verbatim>\<open>file_not_found\<close>
  is returned and cached, so that reading the property again returns the placeholder
  and prints nothing, whatever the disk holds by then. No other error is caught: if the
  document is not well-formed the \<^verbatim>\<open>ParseError\<close> leaves the property, and so does every
  other error of the read, such as the \<^verbatim>\<open>NotADirectoryError\<close> for a path with a
  regular file as a parent component.
\<close>

theorem xml_catches_FileNotFoundError_only:
  assumes "fi_xml f = None"
  shows "(fs (xmlFilename f) = None \<longrightarrow>
            DoxygenFileInfo_xml fs f =
              Inr (file_not_found, f\<lparr>fi_xml := Some file_not_found\<rparr>,
                   [''ERR: '' @ [CHR 0x22] @ xmlFilename f @ [CHR 0x22] @ '' not found''])
          \<and> DoxygenFileInfo_xml fs' (f\<lparr>fi_xml := Some file_not_found\<rparr>) =
              Inr (file_not_found, f\<lparr>fi_xml := Some file_not_found\<rparr>, []))
       \<and> (fs (xmlFilename f) = Some Unparsable \<longrightarrow> DoxygenFileInfo_xml fs f = Inl ParseError)
       \<and> (fs (xmlFilename f) = Some (Unreadable e) \<longrightarrow> (\<forall>p. e \<noteq> FileNotFoundError p) \<longrightarrow>
            DoxygenFileInfo_xml fs f = Inl e)"
  using assms
  by (auto simp: DoxygenFileInfo_xml_def read_document_def split: error.splits)

theorem xml_catches_FileNotFoundError_only_witness:
  "fi_xml main_file = None
   \<and> DoxygenFileInfo_xml Map.empty main_file =
       Inr (file_not_found, main_file\<lparr>fi_xml := Some file_not_found\<rparr>,
            [''ERR: '' @ [CHR 0x22] @ ''d/xml/main_8c.xml'' @ [CHR 0x22] @ '' not found''])
   \<and> DoxygenFileInfo_xml [''d/xml/main_8c.xml'' \<mapsto> Document file_not_found]
         (main_file\<lparr>fi_xml := Some file_not_found\<rparr>) =
       Inr (file_not_found, main_file\<lparr>fi_xml := Some file_not_found\<rparr>, [])
   \<and> DoxygenFileInfo_xml [''d/xml/main_8c.xml'' \<mapsto> Unparsable] main_file = Inl ParseError
   \<and> DoxygenFileInfo_xml
         [''d/xml/main_8c.xml'' \<mapsto> Unreadable (NotADirectoryError ''d/xml/main_8c.xml'')]
         main_file
       = Inl (NotADirectoryError ''d/xml/main_8c.xml'')"
proof -
  have a: "fi_xml main_file = None" by (simp add: main_file_def)
  have n: "xmlFilename main_file = ''d/xml/main_8c.xml''" by (simp add: main_file_def)
  have "DoxygenFileInfo_xml Map.empty main_file =
          Inr (file_not_found, main_file\<lparr>fi_xml := Some file_not_found\<rparr>,
               [''ERR: '' @ [CHR 0x22] @ ''d/xml/main_8c.xml'' @ [CHR 0x22] @ '' not found''])
      \<and> DoxygenFileInfo_xml [''d/xml/main_8c.xml'' \<mapsto> Document file_not_found]
            (main_file\<lparr>fi_xml := Some file_not_found\<rparr>) =
          Inr (file_not_found, main_file\<lparr>fi_xml := Some file_not_found\<rparr>, [])"
    using xml_catches_FileNotFoundError_only
            [OF a, where fs = Map.empty
               and fs' = "[''d/xml/main_8c.xml'' \<mapsto> Document file_not_found]"]
    by (simp add: n)
  moreover have
    "DoxygenFileInfo_xml [''d/xml/main_8c.xml'' \<mapsto> Unparsable] main_file = Inl ParseError"
    using xml_catches_FileNotFoundError_only
            [OF a, where fs = "[''d/xml/main_8c.xml'' \<mapsto> Unparsable]"]
    by (simp add: n)
  moreover have
    "DoxygenFileInfo_xml
       [''d/xml/main_8c.xml'' \<mapsto> Unreadable (NotADirectoryError ''d/xml/main_8c.xml'')]
       main_file
     = Inl (NotADirectoryError ''d/xml/main_8c.xml'')"
    using xml_catches_FileNotFoundError_only
            [OF a, where fs = "[''d/xml/main_8c.xml'' \<mapsto>
                                  Unreadable (NotADirectoryError ''d/xml/main_8c.xml'')]"
               and e = "NotADirectoryError ''d/xml/main_8c.xml''"]
    by (simp add: n)
  ultimately show ?thesis using a by simp
qed

section \<open>One traversal of the functions a function calls\<close>

subsection \<open>What a traversal leaves untouched\<close>

lemma file_xml_frame:
  assumes "file_xml fs st x = Inr (doc, st')"
  shows "fns st' = fns st" and "reg_references st' = reg_references st"
  using assms
  by (auto simp: file_xml_def split: sum.splits prod.splits)

lemma bestFile_nonempty:
  assumes "bestFile st a = Inr (b, st')" and "fn_files (fns st ! a) \<noteq> []"
  shows "st' = st"
  using assms by (auto simp: bestFile_def split: sum.splits)

lemma fn_xml_loop_frame:
  assumes "fn_xml_loop fs a xs acc st = Inr (els, st')"
      and "xs \<noteq> [] \<longrightarrow> fn_files (fns st ! a) \<noteq> []"
  shows "fns st' = fns st \<and> reg_references st' = reg_references st"
  using assms
proof (induction fs a xs acc st rule: fn_xml_loop.induct)
  case (1 fs a acc st)
  then show ?case by simp
next
  case (2 fs a xmlFile rest acc st)
  from "2.prems"(1) obtain doc st1 where
    fx: "file_xml fs st xmlFile = Inr (doc, st1)"
    by (auto split: sum.splits)
  note fr = file_xml_frame [OF fx]
  have ne: "fn_files (fns st1 ! a) \<noteq> []"
    using "2.prems"(2) fr by simp
  show ?case
  proof (cases "findall_id (refid (fns st1 ! a)) doc \<noteq> []")
    case True
    have run: "fn_xml_loop fs a rest (acc @ findall_id (refid (fns st1 ! a)) doc) st1 = Inr (els, st')"
      using "2.prems"(1) fx True by simp
    have "fns st' = fns st1 \<and> reg_references st' = reg_references st1"
      using "2.IH"(1) [OF fx refl True run] ne by simp
    then show ?thesis using fr by simp
  next
    case False
    from "2.prems"(1) fx False obtain best st2 where
      bf: "bestFile st1 a = Inr (best, st2)"
      by (auto split: sum.splits)
    have st2: "st2 = st1" using bestFile_nonempty [OF bf ne] .
    from "2.prems"(1) fx False bf obtain nm where
      nm: "file_name_of st2 best = Inr nm"
      by (auto split: sum.splits)
    let ?st3 = "st2\<lparr>stdout := stdout st2 @
                  [''refid '' @ refid (fns st2 ! a) @ '' not found in '' @
                   [CHR 0x22] @ py_str nm @ [CHR 0x22]]\<rparr>"
    have run: "fn_xml_loop fs a rest acc ?st3 = Inr (els, st')"
      using "2.prems"(1) fx False bf nm by simp
    have "fns st' = fns ?st3 \<and> reg_references st' = reg_references ?st3"
      using "2.IH"(2) [OF fx refl False bf refl nm run] ne st2 by simp
    then show ?thesis using fr st2 by simp
  qed
qed

lemma fn_xml_frame:
  assumes "fn_xml fs st a = Inr (els, st')"
  shows "fns st' = fns st" and "reg_references st' = reg_references st"
  using fn_xml_loop_frame [of fs a "map snd (fn_files (fns st ! a))" "[]" st els st'] assms
  by (auto simp: fn_xml_def)

lemma fn_filename_frame:
  assumes "fn_filename fs st a = Inr (f, st')"
  shows "fns st' = fns st" and "reg_references st' = reg_references st"
  using assms fn_xml_frame [of fs st a]
  by (auto simp: fn_filename_def getDefinitionLocation_def split: sum.splits option.splits)

lemma get_references_populated:
  "reg_references st \<noteq> [] \<Longrightarrow> get_references fs st = Inr st"
  by (simp add: get_references_def)

subsection \<open>The visited set of a traversal\<close>

lemma calls_loop_distinct:
  assumes "calls_loop fs a refs ignore st = (ys, r)" and "reg_references st \<noteq> []"
  shows "distinct (map (\<lambda>y. refid (fns st ! cl_fn y)) ys)
       \<and> (\<forall>y \<in> set ys. refid (fns st ! cl_fn y) \<notin> set (map (\<lambda>c. refid (fns st ! c)) ignore))"
  using assms
proof (induction refs arbitrary: ignore st ys r)
  case Nil
  then show ?case by simp
next
  case (Cons ref rest)
  note gr = get_references_populated [OF Cons.prems(2), of fs]
  show ?case
  proof (cases "attrib_get ref ''refid''")
    case None
    then show ?thesis using Cons.prems gr by simp
  next
    case (Some rid)
    show ?thesis
    proof (cases "map_of (reg_references st) rid")
      case None
      then have "calls_loop fs a rest ignore st = (ys, r)"
        using Cons.prems(1) gr Some by simp
      then show ?thesis using Cons.IH Cons.prems(2) by blast
    next
      case b: (Some b)
      show ?thesis
      proof (cases "py_in st b ignore")
        case True
        then have "calls_loop fs a rest ignore st = (ys, r)"
          using Cons.prems(1) gr Some b by simp
        then show ?thesis using Cons.IH Cons.prems(2) by blast
      next
        case False
        show ?thesis
        proof (cases "fn_filename fs st a")
          case (Inl e)
          then show ?thesis using Cons.prems(1) gr Some b False by simp
        next
          case (Inr p)
          obtain f st2 where p: "p = (f, st2)" by (cases p)
          note fr = fn_filename_frame [OF Inr [unfolded p]]
          obtain zs r2 where rec: "calls_loop fs a rest (ignore @ [b]) st2 = (zs, r2)"
            by (cases "calls_loop fs a rest (ignore @ [b]) st2")
          have ne2: "reg_references st2 \<noteq> []" using fr Cons.prems(2) by simp
          from Cons.IH [OF rec ne2]
          have ih: "distinct (map (\<lambda>y. refid (fns st ! cl_fn y)) zs)"
            and ih2: "\<forall>y \<in> set zs. refid (fns st ! cl_fn y)
                        \<notin> set (map (\<lambda>c. refid (fns st ! c)) (ignore @ [b]))"
            using fr by simp_all
          obtain loc where ys: "ys = CallLocation b loc # zs"
            using Cons.prems(1) gr Some b False Inr p rec by auto
          have nb: "refid (fns st ! b) \<notin> set (map (\<lambda>c. refid (fns st ! c)) ignore)"
            using False by (simp add: py_in_def)
          show ?thesis
            using ys ih ih2 nb by auto
        qed
      qed
    qed
  qed
qed

text \<open>
  Claim C5. Take a registry whose index has been parsed, so that its dictionary of
  reference IDs is not empty, and any function \<open>F\<close> of it. Whatever one traversal
  \<^verbatim>\<open>thisCallsFunctions\<close> of \<open>F\<close> without an \<^verbatim>\<open>ignore\<close> argument yields, whether it
  ends normally or by an exception: no two yields have callees with the same reference
  ID, so no callee is yielded twice, and no yield has the reference ID of \<open>F\<close>, so \<open>F\<close>
  itself is never yielded.
\<close>

theorem thisCallsFunctions_once:
  assumes "reg_references st \<noteq> []" and "thisCallsFunctions fs st F = (ys, r)"
  shows "distinct (map (\<lambda>y. refid (fns st ! cl_fn y)) ys)
       \<and> refid (fns st ! F) \<notin> set (map (\<lambda>y. refid (fns st ! cl_fn y)) ys)
       \<and> distinct (map cl_fn ys)
       \<and> F \<notin> set (map cl_fn ys)"
proof (cases "fn_xml fs st F")
  case (Inl e)
  then show ?thesis using assms(2) by (simp add: thisCallsFunctions_def)
next
  case (Inr p)
  obtain els st1 where p: "p = (els, st1)" by (cases p)
  note fr = fn_xml_frame [OF Inr [unfolded p]]
  have run: "calls_loop fs F (concat (map (findall ''references'') els)) [F] st1 = (ys, r)"
    using assms(2) Inr p by (simp add: thisCallsFunctions_def)
  have ne: "reg_references st1 \<noteq> []" using fr assms(1) by simp
  from calls_loop_distinct [OF run ne]
  have d: "distinct (map (\<lambda>y. refid (fns st ! cl_fn y)) ys)"
    and n: "\<forall>y \<in> set ys. refid (fns st ! cl_fn y) \<noteq> refid (fns st ! F)"
    using fr by simp_all
  have "distinct (map cl_fn ys)"
    using d by (simp add: distinct_map inj_on_def)
  moreover have "F \<notin> set (map cl_fn ys)" using n by auto
  moreover have "refid (fns st ! F) \<notin> set (map (\<lambda>y. refid (fns st ! cl_fn y)) ys)"
    using n by auto
  ultimately show ?thesis using d by simp
qed

text \<open>
  A function \<^verbatim>\<open>rec\<close> that calls itself once and \<^verbatim>\<open>helper\<close> twice: the traversal yields
  \<^verbatim>\<open>helper\<close> once, at the first call, and nothing else.
\<close>

definition rec_index :: element where
  "rec_index =
     Element ''doxygenindex'' [] None
       [compound_el ''rc'' ''r.c'' [member_el ''r'' ''rec'', member_el ''h'' ''helper'']]"

definition rec_doc :: element where
  "rec_doc =
     Element ''doxygen'' [] None
       [memberdef_el ''r'' ''r.c''
          [references_el ''r'' ''2'', references_el ''h'' ''3'', references_el ''h'' ''7''],
        memberdef_el ''h'' ''r.c'' []]"

definition rec_fs :: xmlfiles where
  "rec_fs = [''d/xml/index.xml'' \<mapsto> Document rec_index, ''d/xml/rc.xml'' \<mapsto> Document rec_doc]"

definition rec_file :: DoxygenFileInfo where
  "rec_file =
     \<lparr>fi_name = Some ''r.c'', fi_functions = [(Some ''rec'', 0), (Some ''helper'', 1)],
      fi_xml = None, xmlFilename = ''d/xml/rc.xml''\<rparr>"

definition rec_parsed :: store where
  "rec_parsed =
     \<lparr>doxygenOutputDirectory = ''d'',
      reg_functions = [(Some ''rec'', 0), (Some ''helper'', 1)],
      reg_references = [(''r'', 0), (''h'', 1)],
      reg_files = [], functionBackreferencesCalculated = False,
      fns = [\<lparr>fn_name = Some ''rec'', refid = ''r'', fn_files = [(Some ''r.c'', 0)],
              parentReferences = []\<rparr>,
             \<lparr>fn_name = Some ''helper'', refid = ''h'', fn_files = [(Some ''r.c'', 0)],
              parentReferences = []\<rparr>],
      fis = [rec_file], stdout = []\<rparr>"

lemma rec_parse: "reparseXmlIndex rec_fs (new_registry ''d'') = Inr rec_parsed"
  by (simp add: reparseXmlIndex_def read_document_def parse_compound_def parse_member_def
        new_registry_def in_xml_dir_def rec_fs_def rec_index_def rec_parsed_def rec_file_def
        el_defs)

lemma rec_calls:
  "thisCallsFunctions rec_fs rec_parsed 0 =
     ([CallLocation 1 ''r.c:3''], Inr (rec_parsed\<lparr>fis := [rec_file\<lparr>fi_xml := Some rec_doc\<rparr>]\<rparr>))"
  by (simp add: eval_defs rec_fs_def rec_doc_def rec_parsed_def rec_file_def el_defs)

theorem thisCallsFunctions_once_witness:
  "reparseXmlIndex rec_fs (new_registry ''d'') = Inr rec_parsed
   \<and> reg_references rec_parsed \<noteq> []
   \<and> thisCallsFunctions rec_fs rec_parsed 0 =
       ([CallLocation 1 ''r.c:3''],
        Inr (rec_parsed\<lparr>fis := [rec_file\<lparr>fi_xml := Some rec_doc\<rparr>]\<rparr>))
   \<and> distinct (map (\<lambda>y. refid (fns rec_parsed ! cl_fn y)) [CallLocation 1 ''r.c:3''])
   \<and> refid (fns rec_parsed ! 0)
       \<notin> set (map (\<lambda>y. refid (fns rec_parsed ! cl_fn y)) [CallLocation 1 ''r.c:3''])"
proof -
  have ne: "reg_references rec_parsed \<noteq> []" by (simp add: rec_parsed_def)
  show ?thesis
    using rec_parse ne rec_calls thisCallsFunctions_once [OF ne rec_calls] by simp
qed

section \<open>Termination of the traversal to the roots\<close>

text \<open>
  The call graph that \<^verbatim>\<open>roots\<close> climbs is the one the parent lists of a store spell out:
  an edge leads from the function of each entry of a parent list to the function that
  owns the list. A store is closed when every entry of every parent list is the address
  of a function of the store.
\<close>

definition parent_edges :: "store \<Rightarrow> (nat \<times> nat) set" where
  "parent_edges st =
     {(p, c). c < length (fns st) \<and> p \<in> cl_fn ` set (parentReferences (fns st ! c))}"

definition heap_closed :: "store \<Rightarrow> bool" where
  "heap_closed st =
     list_all (\<lambda>f. list_all (\<lambda>call. cl_fn call < length (fns st)) (parentReferences f)) (fns st)"

lemma heap_closedD:
  "heap_closed st \<Longrightarrow> c < length (fns st) \<Longrightarrow> call \<in> set (parentReferences (fns st ! c)) \<Longrightarrow>
   cl_fn call < length (fns st)"
  by (auto simp: heap_closed_def list_all_iff)

lemma parent_edges_wf:
  assumes "heap_closed st" and "acyclic (parent_edges st)"
  shows "wf (parent_edges st)"
proof -
  have "parent_edges st \<subseteq> {..<length (fns st)} \<times> {..<length (fns st)}"
    using heap_closedD [OF assms(1)] by (auto simp: parent_edges_def)
  then have "finite (parent_edges st)"
    by (rule finite_subset) simp
  then show ?thesis using assms(2) by (rule finite_acyclic_wf)
qed

subsection \<open>Once the back references are calculated\<close>

lemma calculated_isRoot:
  "functionBackreferencesCalculated st \<Longrightarrow>
   isRoot fs st node = Inr (parentReferences (fns st ! node_fn node) = [], st)"
  by (simp add: isRoot_def calculated_parents)

lemma roots_each_total:
  assumes "\<forall>p \<in> set ps. \<exists>n ys. (\<forall>m \<ge> n. roots m fs st p = Some (Inr (ys, st)))
                                 \<and> (\<forall>y \<in> set ys. isRoot fs st y = Inr (True, st))"
  shows "\<exists>n ys. (\<forall>m \<ge> n. roots_each (roots m fs) ps st = Some (Inr (ys, st)))
               \<and> (\<forall>y \<in> set ys. isRoot fs st y = Inr (True, st))"
  using assms
proof (induction ps)
  case Nil
  show ?case by (intro exI [of _ 0] exI [of _ "[]"]) simp
next
  case (Cons p ps)
  from Cons.prems obtain n1 ys1 where
    h1: "\<forall>m \<ge> n1. roots m fs st p = Some (Inr (ys1, st))"
    and r1: "\<forall>y \<in> set ys1. isRoot fs st y = Inr (True, st)"
    by auto
  from Cons.IH Cons.prems obtain n2 ys2 where
    h2: "\<forall>m \<ge> n2. roots_each (roots m fs) ps st = Some (Inr (ys2, st))"
    and r2: "\<forall>y \<in> set ys2. isRoot fs st y = Inr (True, st)"
    by auto
  show ?case
  proof (intro exI [of _ "max n1 n2"] exI [of _ "ys1 @ ys2"] conjI allI impI)
    fix m assume "max n1 n2 \<le> m"
    then have "roots m fs st p = Some (Inr (ys1, st))"
      and "roots_each (roots m fs) ps st = Some (Inr (ys2, st))"
      using h1 h2 by auto
    then show "roots_each (roots m fs) (p # ps) st = Some (Inr (ys1 @ ys2, st))"
      by simp
  next
    show "\<forall>y \<in> set (ys1 @ ys2). isRoot fs st y = Inr (True, st)"
      using r1 r2 by auto
  qed
qed

lemma roots_step:
  assumes "functionBackreferencesCalculated st"
  shows "roots (Suc k) fs st node =
           (if parentReferences (fns st ! node_fn node) = [] then Some (Inr ([node], st))
            else roots_each (roots k fs)
                   (map node_of (parentReferences (fns st ! node_fn node))) st)"
  using assms by (simp add: calculated_isRoot calculated_parents)

lemma roots_total:
  assumes calc: "functionBackreferencesCalculated st"
      and closed: "heap_closed st"
      and acyc: "acyclic (parent_edges st)"
  shows "c < length (fns st) \<Longrightarrow> node_fn node = c \<Longrightarrow>
         \<exists>n ys. (\<forall>m \<ge> n. roots m fs st node = Some (Inr (ys, st)))
               \<and> (\<forall>y \<in> set ys. isRoot fs st y = Inr (True, st))"
proof (induction c arbitrary: node rule: wf_induct_rule [OF parent_edges_wf [OF closed acyc]])
  case (1 c)
  let ?calls = "parentReferences (fns st ! c)"
  show ?case
  proof (cases "?calls = []")
    case True
    have root: "isRoot fs st node = Inr (True, st)"
      using calc True "1.prems"(2) by (simp add: calculated_isRoot)
    show ?thesis
    proof (intro exI [of _ "Suc 0"] exI [of _ "[node]"] conjI allI impI)
      fix m assume "Suc 0 \<le> m"
      then obtain k where "m = Suc k" by (cases m) auto
      then show "roots m fs st node = Some (Inr ([node], st))"
        using True "1.prems"(2) by (simp only: roots_step [OF calc]) simp
    next
      show "\<forall>y \<in> set [node]. isRoot fs st y = Inr (True, st)"
        using root by simp
    qed
  next
    case False
    have "\<forall>p \<in> set (map node_of ?calls).
            \<exists>n ys. (\<forall>m \<ge> n. roots m fs st p = Some (Inr (ys, st)))
                  \<and> (\<forall>y \<in> set ys. isRoot fs st y = Inr (True, st))"
    proof
      fix p assume "p \<in> set (map node_of ?calls)"
      then obtain call where call: "call \<in> set ?calls" and p: "p = node_of call"
        by auto
      have edge: "(cl_fn call, c) \<in> parent_edges st"
        using call "1.prems"(1) by (auto simp: parent_edges_def)
      have inheap: "cl_fn call < length (fns st)"
        using heap_closedD [OF closed "1.prems"(1) call] .
      have "node_fn p = cl_fn call" using p by (simp add: node_of_def)
      then show "\<exists>n ys. (\<forall>m \<ge> n. roots m fs st p = Some (Inr (ys, st)))
                       \<and> (\<forall>y \<in> set ys. isRoot fs st y = Inr (True, st))"
        using "1.IH" [OF edge inheap] by simp
    qed
    from roots_each_total [OF this] obtain n ys where
      h: "\<forall>m \<ge> n. roots_each (roots m fs) (map node_of ?calls) st = Some (Inr (ys, st))"
      and r: "\<forall>y \<in> set ys. isRoot fs st y = Inr (True, st)"
      by auto
    show ?thesis
    proof (intro exI [of _ "Suc n"] exI [of _ ys] conjI allI impI)
      fix m assume "Suc n \<le> m"
      then obtain k where k: "m = Suc k" and nk: "n \<le> k" by (cases m) auto
      have "roots (Suc k) fs st node = roots_each (roots k fs) (map node_of ?calls) st"
        using False "1.prems"(2) by (simp only: roots_step [OF calc]) simp
      then show "roots m fs st node = Some (Inr (ys, st))"
        using h nk k by simp
    next
      show "\<forall>y \<in> set ys. isRoot fs st y = Inr (True, st)" using r .
    qed
  qed
qed

subsection \<open>From any store\<close>

text \<open>
  The first \<^verbatim>\<open>isRoot\<close> of a traversal calculates the back references if that has not
  been done. When the calculation raises, so does the traversal; otherwise it goes on
  in the store that the calculation leaves.
\<close>

lemma calculate_flag:
  "calculateFunctionBackreferences fs st False = Inr st1 \<Longrightarrow>
   functionBackreferencesCalculated st1"
  by (auto simp: calculateFunctionBackreferences_def split: if_splits sum.splits)

lemma calculate_again:
  "functionBackreferencesCalculated st \<Longrightarrow>
   calculateFunctionBackreferences fs st False = Inr st"
  by (simp add: calculateFunctionBackreferences_def)

lemma parents_calculate:
  "parents fs st node =
     (case calculateFunctionBackreferences fs st False of
        Inl e \<Rightarrow> Inl e
      | Inr st1 \<Rightarrow> Inr (map node_of (parentReferences (fns st1 ! node_fn node)), st1))"
  by (simp add: parents_def functionsCallThis_def split: sum.splits)

lemma roots_raises:
  assumes "calculateFunctionBackreferences fs st False = Inl e"
  shows "roots (Suc k) fs st node = Some (Inl e)"
  using assms by (simp add: isRoot_def parents_calculate)

lemma roots_calculate:
  assumes "calculateFunctionBackreferences fs st False = Inr st1"
  shows "roots m fs st node = roots m fs st1 node"
proof (cases m)
  case 0
  then show ?thesis by simp
next
  case (Suc k)
  have "roots (Suc k) fs st node =
          (if parentReferences (fns st1 ! node_fn node) = [] then Some (Inr ([node], st1))
           else roots_each (roots k fs)
                  (map node_of (parentReferences (fns st1 ! node_fn node))) st1)"
    using assms calculate_again [OF calculate_flag [OF assms], of fs]
    by (simp add: isRoot_def parents_calculate)
  then show ?thesis
    using Suc roots_step [OF calculate_flag [OF assms]] by simp
qed

text \<open>
  Claim C4. Take any node and any store. If calculating the back references raises,
  the traversal \<^verbatim>\<open>roots\<close> ends by raising the same exception. Otherwise let the parent
  lists that the calculation leaves (or has left before) form an acyclic graph, with the
  node's function and every entry of a parent list in the store. Then the traversal
  terminates: with enough fuel it returns a list of nodes and the store the calculation
  left, and more fuel returns the same. Every node of the list satisfies \<^verbatim>\<open>isRoot\<close>, and
  if the starting node is itself a root the list is that node alone.
\<close>

theorem roots_terminates:
  "(\<forall>e. calculateFunctionBackreferences fs st False = Inl e \<longrightarrow>
        (\<forall>m \<ge> 1. roots m fs st node = Some (Inl e)))
   \<and> (\<forall>st1. calculateFunctionBackreferences fs st False = Inr st1 \<longrightarrow>
         heap_closed st1 \<longrightarrow> acyclic (parent_edges st1) \<longrightarrow> node_fn node < length (fns st1) \<longrightarrow>
         (\<exists>n ys. (\<forall>m \<ge> n. roots m fs st node = Some (Inr (ys, st1)))
               \<and> (\<forall>y \<in> set ys. isRoot fs st1 y = Inr (True, st1))
               \<and> (isRoot fs st node = Inr (True, st1) \<longrightarrow> ys = [node])))"
proof (intro conjI allI impI)
  fix e m assume "calculateFunctionBackreferences fs st False = Inl e" and "1 \<le> (m::nat)"
  then show "roots m fs st node = Some (Inl e)"
    using roots_raises [of fs st e _ node] by (cases m) auto
next
  fix st1
  assume c: "calculateFunctionBackreferences fs st False = Inr st1"
    and closed: "heap_closed st1" and acyc: "acyclic (parent_edges st1)"
    and inheap: "node_fn node < length (fns st1)"
  note flag = calculate_flag [OF c]
  from roots_total [OF flag closed acyc inheap refl, of fs] obtain n ys where
    h: "\<forall>m \<ge> n. roots m fs st1 node = Some (Inr (ys, st1))"
    and r: "\<forall>y \<in> set ys. isRoot fs st1 y = Inr (True, st1)"
    by auto
  have h': "\<forall>m \<ge> n. roots m fs st node = Some (Inr (ys, st1))"
    using h by (simp add: roots_calculate [OF c])
  have "isRoot fs st node = Inr (True, st1) \<longrightarrow> ys = [node]"
  proof
    assume "isRoot fs st node = Inr (True, st1)"
    then have "parentReferences (fns st1 ! node_fn node) = []"
      using c by (simp add: isRoot_def parents_calculate)
    then have "roots (Suc n) fs st1 node = Some (Inr ([node], st1))"
      by (simp only: roots_step [OF flag]) simp
    moreover have "roots (Suc n) fs st1 node = Some (Inr (ys, st1))"
      using h by (simp del: roots.simps)
    ultimately show "ys = [node]" by simp
  qed
  then show "\<exists>n ys. (\<forall>m \<ge> n. roots m fs st node = Some (Inr (ys, st1)))
               \<and> (\<forall>y \<in> set ys. isRoot fs st1 y = Inr (True, st1))
               \<and> (isRoot fs st node = Inr (True, st1) \<longrightarrow> ys = [node])"
    using h' r by blast
qed

text \<open>
  The chain of three functions, climbed from \<^verbatim>\<open>leaf\<close> before the back references are
  calculated and from \<^verbatim>\<open>top\<close> after; and the registry of \<^verbatim>\<open>foo\<close>, where the calculation
  raises.
\<close>

lemma chain_edge_less:
  assumes "(p, c) \<in> parent_edges chain_store"
  shows "p < c"
proof -
  from assms have c: "c < 3"
    and p: "p \<in> cl_fn ` set (parentReferences (fns chain_store ! c))"
    by (auto simp: parent_edges_def chain_store_def chain_parsed_def)
  from c consider "c = 0" | "c = 1" | "c = 2" by linarith
  then show ?thesis
    using p by cases (auto simp: chain_store_def chain_parsed_def chain_fn_def)
qed

lemma chain_acyclic: "acyclic (parent_edges chain_store)"
  by (rule acyclicI_order [where f = "\<lambda>x. - int x"]) (use chain_edge_less in force)

lemma chain_closed: "heap_closed chain_store"
  by (simp add: heap_closed_def chain_store_def chain_parsed_def chain_fn_def)

lemma chain_roots:
  "roots 3 chain_fs chain_store (CallGraphNode 2 None)
     = Some (Inr ([CallGraphNode 0 (Some (CallLocation 0 ''c.c:2''))], chain_store))"
  by (simp add: numeral_3_eq_3 isRoot_def parents_def functionsCallThis_def
        calculateFunctionBackreferences_def chain_store_def chain_parsed_def chain_fn_def
        node_of_def)

lemma foo_calc:
  "calculateFunctionBackreferences foo_fs foo_store False = Inl (AttributeError ''extension'')"
  by (simp add: calculateFunctionBackreferences_def eval_defs foo_fs_def foo_store_def
        file_not_found_def findall_id_def bestFile_def extension_def)

theorem roots_terminates_witness:
  "calculateFunctionBackreferences foo_fs foo_store False = Inl (AttributeError ''extension'')
   \<and> roots 1 foo_fs foo_store (CallGraphNode 0 None) = Some (Inl (AttributeError ''extension''))
   \<and> calculateFunctionBackreferences chain_fs chain_parsed False = Inr chain_store
   \<and> heap_closed chain_store
   \<and> acyclic (parent_edges chain_store)
   \<and> node_fn (CallGraphNode 2 None) < length (fns chain_store)
   \<and> roots 3 chain_fs chain_parsed (CallGraphNode 2 None)
       = Some (Inr ([CallGraphNode 0 (Some (CallLocation 0 ''c.c:2''))], chain_store))
   \<and> (\<exists>n ys. (\<forall>m \<ge> n. roots m chain_fs chain_parsed (CallGraphNode 2 None)
                          = Some (Inr (ys, chain_store)))
            \<and> (\<forall>y \<in> set ys. isRoot chain_fs chain_store y = Inr (True, chain_store)))
   \<and> isRoot chain_fs chain_store (CallGraphNode 0 None) = Inr (True, chain_store)
   \<and> (\<exists>n. \<forall>m \<ge> n. roots m chain_fs chain_store (CallGraphNode 0 None)
                       = Some (Inr ([CallGraphNode 0 None], chain_store)))"
proof -
  have len2: "node_fn (CallGraphNode 2 None) < length (fns chain_store)"
    and len0: "node_fn (CallGraphNode 0 None) < length (fns chain_store)"
    by (simp_all add: chain_store_def chain_parsed_def)
  have again: "calculateFunctionBackreferences chain_fs chain_store False = Inr chain_store"
    by (simp add: calculateFunctionBackreferences_def chain_store_calculated)
  have root0: "isRoot chain_fs chain_store (CallGraphNode 0 None) = Inr (True, chain_store)"
    by (simp add: calculated_isRoot chain_store_calculated)
       (simp add: chain_store_def chain_parsed_def chain_fn_def)
  have a: "roots 1 foo_fs foo_store (CallGraphNode 0 None)
             = Some (Inl (AttributeError ''extension''))"
    using roots_terminates [of foo_fs foo_store "CallGraphNode 0 None"] foo_calc
    by (simp del: roots.simps)
  have b: "\<exists>n ys. (\<forall>m \<ge> n. roots m chain_fs chain_parsed (CallGraphNode 2 None)
                          = Some (Inr (ys, chain_store)))
            \<and> (\<forall>y \<in> set ys. isRoot chain_fs chain_store y = Inr (True, chain_store))"
    using roots_terminates [of chain_fs chain_parsed "CallGraphNode 2 None"]
      chain_calc chain_closed chain_acyclic len2
    by blast
  have "\<exists>n ys. (\<forall>m \<ge> n. roots m chain_fs chain_store (CallGraphNode 0 None)
                          = Some (Inr (ys, chain_store)))
            \<and> (isRoot chain_fs chain_store (CallGraphNode 0 None) = Inr (True, chain_store)
                 \<longrightarrow> ys = [CallGraphNode 0 None])"
    using roots_terminates [of chain_fs chain_store "CallGraphNode 0 None"]
      again chain_closed chain_acyclic len0
    by blast
  then have c: "\<exists>n. \<forall>m \<ge> n. roots m chain_fs chain_store (CallGraphNode 0 None)
                       = Some (Inr ([CallGraphNode 0 None], chain_store))"
    using root0 by auto
  have d: "roots 3 chain_fs chain_parsed (CallGraphNode 2 None)
       = Some (Inr ([CallGraphNode 0 (Some (CallLocation 0 ''c.c:2''))], chain_store))"
    using chain_roots by (simp only: roots_calculate [OF chain_calc])
  show ?thesis
    using foo_calc a chain_calc chain_closed chain_acyclic len2 d b root0 c by simp
qed

section \<open>What parsing the index builds\<close>






subsection \<open>One member\<close>










subsection \<open>The members of one file\<close>


subsection \<open>One compound, and all of them\<close>








subsection \<open>Two files of the same name\<close>





subsection \<open>Files of different names\<close>







section \<open>Back references of functions that share a name\<close>

text \<open>
  Two source files each define a function \<^verbatim>\<open>init\<close>, with two reference IDs; the one of
  \<^verbatim>\<open>a.c\<close> calls \<^verbatim>\<open>log\<close>, the one of \<^verbatim>\<open>b.c\<close> calls nothing. The index lists \<^verbatim>\<open>a.c\<close> first.
\<close>

definition shadow_index :: element where
  "shadow_index =
     Element ''doxygenindex'' [] None
       [compound_el ''a_8c'' ''a.c'' [member_el ''ia'' ''init'', member_el ''l'' ''log''],
        compound_el ''b_8c'' ''b.c'' [member_el ''ib'' ''init'']]"

definition shadow_doc_a :: element where
  "shadow_doc_a =
     Element ''doxygen'' [] None
       [memberdef_el ''ia'' ''a.c'' [references_el ''l'' ''3''],
        memberdef_el ''l'' ''a.c'' []]"

definition shadow_doc_b :: element where
  "shadow_doc_b = Element ''doxygen'' [] None [memberdef_el ''ib'' ''b.c'' []]"

definition shadow_fs :: xmlfiles where
  "shadow_fs =
     [''d/xml/index.xml'' \<mapsto> Document shadow_index,
      ''d/xml/a_8c.xml'' \<mapsto> Document shadow_doc_a,
      ''d/xml/b_8c.xml'' \<mapsto> Document shadow_doc_b]"

definition shadow_file_a :: DoxygenFileInfo where
  "shadow_file_a =
     \<lparr>fi_name = Some ''a.c'', fi_functions = [(Some ''init'', 0), (Some ''log'', 1)],
      fi_xml = None, xmlFilename = ''d/xml/a_8c.xml''\<rparr>"

definition shadow_file_b :: DoxygenFileInfo where
  "shadow_file_b =
     \<lparr>fi_name = Some ''b.c'', fi_functions = [(Some ''init'', 2)],
      fi_xml = None, xmlFilename = ''d/xml/b_8c.xml''\<rparr>"

definition shadow_parsed :: store where
  "shadow_parsed =
     \<lparr>doxygenOutputDirectory = ''d'',
      reg_functions = [(Some ''init'', 2), (Some ''log'', 1)],
      reg_references = [(''ia'', 0), (''l'', 1), (''ib'', 2)],
      reg_files = [], functionBackreferencesCalculated = False,
      fns = [\<lparr>fn_name = Some ''init'', refid = ''ia'', fn_files = [(Some ''a.c'', 0)],
              parentReferences = []\<rparr>,
             \<lparr>fn_name = Some ''log'', refid = ''l'', fn_files = [(Some ''a.c'', 0)],
              parentReferences = []\<rparr>,
             \<lparr>fn_name = Some ''init'', refid = ''ib'', fn_files = [(Some ''b.c'', 1)],
              parentReferences = []\<rparr>],
      fis = [shadow_file_a, shadow_file_b], stdout = []\<rparr>"

definition shadow_store :: store where
  "shadow_store =
     shadow_parsed
       \<lparr>functionBackreferencesCalculated := True,
        fis := [shadow_file_a\<lparr>fi_xml := Some shadow_doc_a\<rparr>,
                shadow_file_b\<lparr>fi_xml := Some shadow_doc_b\<rparr>]\<rparr>"

lemma shadow_parse: "reparseXmlIndex shadow_fs (new_registry ''d'') = Inr shadow_parsed"
  by (simp add: reparseXmlIndex_def read_document_def parse_compound_def parse_member_def
        new_registry_def in_xml_dir_def shadow_fs_def shadow_index_def shadow_parsed_def
        shadow_file_a_def shadow_file_b_def el_defs)

lemma shadow_calls:
  "thisCallsFunctions shadow_fs shadow_parsed 0 =
     ([CallLocation 1 ''a.c:3''],
      Inr (shadow_parsed\<lparr>fis := [shadow_file_a\<lparr>fi_xml := Some shadow_doc_a\<rparr>,
                                  shadow_file_b]\<rparr>))"
  by (simp add: eval_defs shadow_fs_def shadow_doc_a_def shadow_parsed_def
        shadow_file_a_def shadow_file_b_def el_defs)

lemma shadow_calc:
  "calculateFunctionBackreferences shadow_fs shadow_parsed False = Inr shadow_store"
  by (simp add: calculateFunctionBackreferences_def eval_defs shadow_fs_def
        shadow_doc_a_def shadow_doc_b_def shadow_parsed_def shadow_store_def
        shadow_file_a_def shadow_file_b_def el_defs)

lemma shadow_calls_after:
  "thisCallsFunctions shadow_fs shadow_store 0 = ([CallLocation 1 ''a.c:3''], Inr shadow_store)"
  by (simp add: eval_defs shadow_fs_def shadow_doc_a_def shadow_parsed_def shadow_store_def
        shadow_file_a_def shadow_file_b_def el_defs)

text \<open>
  Claim C1 fails on the code, which contradicts the docstring of
  \<^verbatim>\<open>calculateFunctionBackreferences\<close> (``go through all functions and link children
  back to parents''). The calculation goes through the dictionary of functions by name,
  where the \<^verbatim>\<open>init\<close> of \<^verbatim>\<open>b.c\<close> has replaced the \<^verbatim>\<open>init\<close> of \<^verbatim>\<open>a.c\<close>, so the latter is
  never visited. The \<^verbatim>\<open>init\<close> of \<^verbatim>\<open>a.c\<close> has a forward call edge to \<^verbatim>\<open>log\<close>, before the
  calculation and after it, and yet after the calculation the parent list of \<^verbatim>\<open>log\<close> is
  empty and \<^verbatim>\<open>log\<close> counts as a root.
\<close>

theorem shadowed_caller_not_linked:
  "reparseXmlIndex shadow_fs (new_registry ''d'') = Inr shadow_parsed
   \<and> thisCallsFunctions shadow_fs shadow_parsed 0 =
       ([CallLocation 1 ''a.c:3''],
        Inr (shadow_parsed\<lparr>fis := [shadow_file_a\<lparr>fi_xml := Some shadow_doc_a\<rparr>,
                                    shadow_file_b]\<rparr>))
   \<and> calculateFunctionBackreferences shadow_fs shadow_parsed False = Inr shadow_store
   \<and> thisCallsFunctions shadow_fs shadow_store 0 =
       ([CallLocation 1 ''a.c:3''], Inr shadow_store)
   \<and> functionsCallThis shadow_fs shadow_store 1 = Inr ([], shadow_store)
   \<and> parents shadow_fs shadow_store (CallGraphNode 1 None) = Inr ([], shadow_store)
   \<and> isRoot shadow_fs shadow_store (CallGraphNode 1 None) = Inr (True, shadow_store)"
  by (simp add: shadow_parse shadow_calls shadow_calc shadow_calls_after)
     (simp add: isRoot_def parents_def functionsCallThis_def
        calculateFunctionBackreferences_def shadow_store_def shadow_parsed_def)

end
